theory Spec2Isabelle
  imports Complex_Main "HOL-Library.Char_ord" "HOL-Library.List_Lexorder" "HOL-Library.AList"
    "HOL-Library.Multiset"
begin

section \<open>Go library functions used by the sources\<close>

text \<open>
  Go strings are byte sequences; they are modelled as \<^typ>\<open>string\<close> (a list of 8-bit
  characters).  The functions of this section model the parts of the Go standard library
  (\<^verbatim>\<open>strings\<close>, \<^verbatim>\<open>strconv\<close>, \<^verbatim>\<open>fmt\<close>) that the sources call.
\<close>

text \<open>\<^verbatim>\<open>strings.HasPrefix(s, prefix)\<close> and \<^verbatim>\<open>strings.HasSuffix(s, suffix)\<close>.\<close>

definition HasPrefix :: "string \<Rightarrow> string \<Rightarrow> bool" where
  "HasPrefix s p = (take (length p) s = p)"

definition HasSuffix :: "string \<Rightarrow> string \<Rightarrow> bool" where
  "HasSuffix s p = (length p \<le> length s \<and> drop (length s - length p) s = p)"

text \<open>\<^verbatim>\<open>strings.Contains(s, substr)\<close>: some suffix of \<open>s\<close> starts with \<open>substr\<close>.\<close>

fun Contains :: "string \<Rightarrow> string \<Rightarrow> bool" where
  "Contains [] sub = (sub = [])"
| "Contains (c # s) sub = (HasPrefix (c # s) sub \<or> Contains s sub)"

text \<open>\<^verbatim>\<open>%d\<close> of \<^verbatim>\<open>fmt.Sprintf\<close> for a natural number and for an integer.\<close>

definition digitChar :: "nat \<Rightarrow> char" where
  "digitChar d = ''0123456789'' ! d"

function showNat :: "nat \<Rightarrow> string" where
  "showNat n = (if n < 10 then [digitChar n] else showNat (n div 10) @ [digitChar (n mod 10)])"
  by pat_completeness auto
termination
  by (relation "measure id") auto

declare showNat.simps [simp del]

definition showInt :: "int \<Rightarrow> string" where
  "showInt i = (if i < 0 then CHR ''-'' # showNat (nat (- i)) else showNat (nat i))"


text \<open>
  \<^verbatim>\<open>strings.TrimSuffix(s, suffix)\<close> removes one trailing \<open>suffix\<close>, if there is one;
  \<^verbatim>\<open>strings.TrimPrefix(s, prefix)\<close> one leading \<open>prefix\<close>.
\<close>

definition TrimSuffix :: "string \<Rightarrow> string \<Rightarrow> string" where
  "TrimSuffix s p = (if HasSuffix s p then take (length s - length p) s else s)"

definition TrimPrefix :: "string \<Rightarrow> string \<Rightarrow> string" where
  "TrimPrefix s p = (if HasPrefix s p then drop (length p) s else s)"

text \<open>
  \<^verbatim>\<open>strconv.Atoi(s)\<close> on a 64-bit platform (and \<^verbatim>\<open>strconv.ParseInt(s, 10, 64)\<close>, which
  accepts the same strings): an optional sign, then one or more decimal digits and nothing
  else, with a value that fits \<^verbatim>\<open>int64\<close>.  \<open>None\<close> is a non-nil error.
\<close>

definition isDigit :: "char \<Rightarrow> bool" where
  "isDigit c = (c \<in> set ''0123456789'')"

definition digitVal :: "char \<Rightarrow> int" where
  "digitVal c = int (of_char c) - 48"

definition decimal :: "string \<Rightarrow> int" where
  "decimal ds = foldl (\<lambda>n c. n * 10 + digitVal c) 0 ds"

definition Atoi :: "string \<Rightarrow> int option" where
  "Atoi s =
     (let neg = HasPrefix s ''-'' \<and> s \<noteq> [];
          ds = (if s \<noteq> [] \<and> (hd s = CHR ''-'' \<or> hd s = CHR ''+'') then tl s else s);
          v = (if neg then - decimal ds else decimal ds)
      in if ds = [] \<or> \<not> list_all isDigit ds then None
         else if v < - (2 ^ 63) \<or> 2 ^ 63 - 1 < v then None
         else Some v)"

section \<open>Ingest transport (v1.5.5/main.go)\<close>

text \<open>
  What one HTTP POST of \<^verbatim>\<open>sendToQuickwit\<close> meets: either the client fails before a
  response arrives (\<^verbatim>\<open>client.Do\<close> returns an error with the given text), or the server
  answers with a status code and a body.  The remote service is a function from the
  entries of the posted body to such a reply.
\<close>

datatype reply = TransportError string | Response nat string

text \<open>
  \<^verbatim>\<open>sendToQuickwit\<close> returns a Go \<^verbatim>\<open>error\<close>: \<open>None\<close> is \<^verbatim>\<open>nil\<close>, \<open>Some msg\<close> is an
  error whose \<^verbatim>\<open>Error()\<close> text is \<open>msg\<close>.  Any status other than 200 is an error
  whose text holds the status and the body.
\<close>

definition sendToQuickwit :: "('e list \<Rightarrow> reply) \<Rightarrow> 'e list \<Rightarrow> string option" where
  "sendToQuickwit server entries =
     (case server entries of
        TransportError m \<Rightarrow> Some (''error sending request: '' @ m)
      | Response code body \<Rightarrow>
          if code \<noteq> 200
          then Some (''error response: Status '' @ showNat code @ '', Body: '' @ body)
          else None)"

text \<open>
  The retry loop of \<^verbatim>\<open>sendToQuickwitWithRetry\<close>, with the loop variables \<open>batchSize\<close>
  and \<open>i\<close> as arguments.  The result is \<open>Inl msg\<close> when the function returns an error
  and \<open>Inr b\<close> when it returns \<^verbatim>\<open>nil\<close>, where \<open>b\<close> is the one body the server answered
  with status 200: every other attempt of the call was refused, so \<open>b\<close> is all that reached
  the index.  The back-off sleep of the else branch changes no value and is left out.
\<close>

function retryLoop ::
  "('e list \<Rightarrow> reply) \<Rightarrow> 'e list \<Rightarrow> int \<Rightarrow> nat \<Rightarrow> int \<Rightarrow> string + 'e list" where
  "retryLoop server entries maxRetries batchSize i =
     (if i < maxRetries then
        (case sendToQuickwit server (take batchSize entries) of
           None \<Rightarrow> Inr (take batchSize entries)
         | Some err \<Rightarrow>
             if Contains err ''413'' \<or> Contains err ''Payload Too Large'' then
               (if batchSize div 2 < 1
                then Inl (''batch size reduced to zero: '' @ err)
                else retryLoop server entries maxRetries (batchSize div 2) (i + 1))
             else retryLoop server entries maxRetries batchSize (i + 1))
      else Inl (''failed after '' @ showInt maxRetries @ '' attempts''))"
  by pat_completeness auto
termination
  by (relation "measure (\<lambda>(server, entries, maxRetries, batchSize, i). nat (maxRetries - i))") auto

declare retryLoop.simps [simp del]

definition sendToQuickwitWithRetry ::
  "('e list \<Rightarrow> reply) \<Rightarrow> 'e list \<Rightarrow> int \<Rightarrow> string + 'e list" where
  "sendToQuickwitWithRetry server entries maxRetries =
     retryLoop server entries maxRetries (length entries) 0"

text \<open>
  The fake server of the specification's scenario 2: status 413 for a body of more than
  \<open>limit\<close> entries, status 200 otherwise.
\<close>

definition limitServer :: "nat \<Rightarrow> 'e list \<Rightarrow> reply" where
  "limitServer limit body =
     (if length body > limit then Response 413 ''Payload Too Large'' else Response 200 [])"


section \<open>Time values and the per-day Jobs of the query drivers\<close>

text \<open>
  A \<^verbatim>\<open>time.Location\<close> is modelled by the offset in force before its first transition
  and by its transitions, in ascending order of time: each is the Unix second from which
  an offset, in seconds east of UTC, is in force.  \<^verbatim>\<open>time.FixedZone\<close> gives a location
  without transitions, \<^verbatim>\<open>time.UTC\<close> is the one of offset 0, and \<^verbatim>\<open>time.Local\<close> is
  whatever location the process runs in.  The transitions that the rule of a location
  yields after its last recorded one are taken to be listed with the others.
\<close>

record Location =
  firstOffset :: int
  tx :: "(int \<times> int) list"

definition FixedZone :: "int \<Rightarrow> Location" where
  "FixedZone offset = \<lparr>firstOffset = offset, tx = []\<rparr>"

definition UTC :: Location where
  "UTC = FixedZone 0"

text \<open>
  \<^verbatim>\<open>l.lookup(sec)\<close>: the offset in force at the Unix second \<open>sec\<close>, with the second
  from which it is in force and the second at which it stops to be; \<open>None\<close> stands for
  the library's \<^verbatim>\<open>alpha\<close> (no start) and \<^verbatim>\<open>omega\<close> (no end).
\<close>

fun lookupFrom :: "(int \<times> int) list \<Rightarrow> int \<Rightarrow> int \<Rightarrow> int option \<Rightarrow> int \<times> int option \<times> int option" where
  "lookupFrom [] sec offset start = (offset, start, None)"
| "lookupFrom (t # ts) sec offset start =
     (if sec < fst t then (offset, start, Some (fst t))
      else lookupFrom ts sec (snd t) (Some (fst t)))"

definition lookupZone :: "Location \<Rightarrow> int \<Rightarrow> int \<times> int option \<times> int option" where
  "lookupZone l sec = lookupFrom (tx l) sec (firstOffset l) None"

text \<open>
  A Go \<^verbatim>\<open>time.Time\<close> is modelled by its instant, in nanoseconds since the Unix epoch,
  and its location.  Instants are unbounded integers; the sources stay far from the limits
  of \<^verbatim>\<open>int64\<close> seconds.
\<close>

record GoTime =
  nsec :: int
  loc :: Location

text \<open>\<^verbatim>\<open>t.Unix()\<close>: whole seconds since the epoch, rounded down.\<close>

definition Unix :: "GoTime \<Rightarrow> int" where
  "Unix t = nsec t div 1000000000"

text \<open>\<^verbatim>\<open>t.Before(u)\<close> and \<^verbatim>\<open>t.After(u)\<close> compare instants.\<close>

definition Before :: "GoTime \<Rightarrow> GoTime \<Rightarrow> bool" where
  "Before t u = (nsec t < nsec u)"

definition After :: "GoTime \<Rightarrow> GoTime \<Rightarrow> bool" where
  "After t u = (nsec t > nsec u)"

text \<open>\<^verbatim>\<open>t.Add(d)\<close> for a duration of \<open>d\<close> nanoseconds; \<^verbatim>\<open>24 * time.Hour\<close>.\<close>

definition Add :: "GoTime \<Rightarrow> int \<Rightarrow> GoTime" where
  "Add t d = t\<lparr>nsec := nsec t + d\<rparr>"

definition Hour :: int where
  "Hour = 3600 * 1000000000"

text \<open>
  The second half of \<^verbatim>\<open>time.Date\<close>, which turns a wall-clock reading into an instant.
  \<open>unix\<close> is the reading counted in seconds as if it were UTC and \<open>ns\<close> its
  nanoseconds.  The library looks up the offset at \<open>unix\<close> itself; when that offset is
  not 0 and the instant it gives lies outside the period in which the offset is in force,
  it takes the offset in force at that instant instead.  A reading that a transition skips
  or repeats thus gets one of the two offsets of the transition.
\<close>

definition outside :: "int \<Rightarrow> int option \<Rightarrow> int option \<Rightarrow> bool" where
  "outside utc start stop =
     ((case start of None \<Rightarrow> False | Some a \<Rightarrow> utc < a) \<or>
      (case stop of None \<Rightarrow> False | Some b \<Rightarrow> b \<le> utc))"

definition fromWall :: "Location \<Rightarrow> int \<Rightarrow> int \<Rightarrow> GoTime" where
  "fromWall l unix ns =
     (case lookupZone l unix of
        (offset, start, stop) \<Rightarrow>
          (let offset' = (if offset \<noteq> 0 \<and> outside (unix - offset) start stop
                          then fst (lookupZone l (unix - offset)) else offset)
           in \<lparr>nsec = (unix - offset') * 1000000000 + ns, loc = l\<rparr>))"

text \<open>
  The wall-clock reading of \<open>t\<close> in its location, in seconds counted as if it were UTC,
  and the day of that reading as a number of days since 1970-01-01: what \<^verbatim>\<open>t.Year()\<close>,
  \<^verbatim>\<open>t.Month()\<close> and \<^verbatim>\<open>t.Day()\<close> name together.
\<close>

definition wall :: "GoTime \<Rightarrow> int" where
  "wall t = Unix t + fst (lookupZone (loc t) (Unix t))"

definition localDay :: "GoTime \<Rightarrow> int" where
  "localDay t = wall t div 86400"

text \<open>
  \<^verbatim>\<open>t.AddDate(0, 0, n)\<close> is \<^verbatim>\<open>Date(year, month, day+n, hour, min, sec, nsec, loc)\<close> of
  the reading of \<open>t\<close>: the same wall-clock time \<open>n\<close> calendar days later, turned into an
  instant with the offset in force then.
\<close>

definition AddDays :: "GoTime \<Rightarrow> int \<Rightarrow> GoTime" where
  "AddDays t n = fromWall (loc t) (wall t + n * 86400) (nsec t mod 1000000000)"

text \<open>
  Days from 1970-01-01 to the day \<open>d\<close> of month \<open>m\<close> (1 to 12) of year \<open>y\<close> in the
  proleptic Gregorian calendar, the calendar arithmetic of \<^verbatim>\<open>time.Date\<close>.
\<close>

definition daysFromCivil :: "int \<Rightarrow> int \<Rightarrow> int \<Rightarrow> int" where
  "daysFromCivil y m d =
     (let y' = (if m \<le> 2 then y - 1 else y);
          era = y' div 400;
          yoe = y' - era * 400;
          doy = (153 * (if m > 2 then m - 3 else m + 9) + 2) div 5 + d - 1;
          doe = yoe * 365 + yoe div 4 - yoe div 100 + doy
      in era * 146097 + doe - 719468)"

text \<open>\<^verbatim>\<open>time.Date(year, month, day, hour, min, sec, nsec, loc)\<close>.\<close>

definition Date :: "int \<Rightarrow> int \<Rightarrow> int \<Rightarrow> int \<Rightarrow> int \<Rightarrow> int \<Rightarrow> int \<Rightarrow> Location \<Rightarrow> GoTime" where
  "Date year month day hh mi ss ns l =
     fromWall l (daysFromCivil year month day * 86400 + hh * 3600 + mi * 60 + ss) ns"

text \<open>
  The two alignment statements of both \<^verbatim>\<open>main\<close> functions,
  \<^verbatim>\<open>time.Date(t.Year(), t.Month(), t.Day(), 0, 0, 0, 0, t.Location())\<close> and
  \<^verbatim>\<open>time.Date(t.Year(), t.Month(), t.Day(), 23, 59, 59, 999999999, t.Location())\<close>.
\<close>

definition startOfDay :: "GoTime \<Rightarrow> GoTime" where
  "startOfDay t = fromWall (loc t) (localDay t * 86400) 0"

definition endOfDay :: "GoTime \<Rightarrow> GoTime" where
  "endOfDay t = fromWall (loc t) (localDay t * 86400 + 23 * 3600 + 59 * 60 + 59) 999999999"

text \<open>\<^verbatim>\<open>isLeapYear\<close> of the SP-side program.\<close>

definition isLeapYear :: "int \<Rightarrow> bool" where
  "isLeapYear year = (year mod 4 = 0 \<and> (year mod 100 \<noteq> 0 \<or> year mod 400 = 0))"

text \<open>A \<^verbatim>\<open>Job\<close>: one query interval, in whole Unix seconds.\<close>

record Job =
  StartTimestamp :: int
  EndTimestamp :: int

text \<open>
  The loop of both \<^verbatim>\<open>main\<close> functions that sends the Jobs to the channel, from
  \<^verbatim>\<open>currentDate := startDate\<close> on; the result is the sequence of Jobs sent.
\<close>

function enqueueJobs :: "GoTime \<Rightarrow> GoTime \<Rightarrow> Job list" where
  "enqueueJobs currentDate endDate =
     (if Before currentDate endDate then
        (let nextDate = (if After (Add currentDate (24 * Hour)) endDate then endDate
                         else Add currentDate (24 * Hour))
         in \<lparr>StartTimestamp = Unix currentDate, EndTimestamp = Unix nextDate\<rparr>
            # enqueueJobs nextDate endDate)
      else [])"
  by pat_completeness auto
termination
  by (relation "measure (\<lambda>(c, e). nat (nsec e - nsec c))")
     (auto simp: Before_def After_def Add_def Hour_def)

declare enqueueJobs.simps [simp del]

text \<open>The seconds a Job covers: the half-open interval from its start to its end.\<close>

definition span :: "Job \<Rightarrow> int set" where
  "span j = {StartTimestamp j ..< EndTimestamp j}"


section \<open>Command-line arguments of the query drivers\<close>

text \<open>
  \<^verbatim>\<open>time.Parse("02-01-2006", value)\<close> as the library reads this layout: two digits of
  day, a hyphen, two digits of month (1 to 12), a hyphen, four digits of year, no text
  after them, and a day that exists in that month.  The result is midnight UTC of the day.
  \<open>getnum\<close> is the library's helper of that name with \<^verbatim>\<open>fixed = true\<close>, \<open>daysIn\<close>
  the number of days of a month.
\<close>

definition getnum2 :: "string \<Rightarrow> (int \<times> string) option" where
  "getnum2 s =
     (case s of
        a # b # r \<Rightarrow> if isDigit a \<and> isDigit b then Some (digitVal a * 10 + digitVal b, r) else None
      | _ \<Rightarrow> None)"

definition skipChar :: "char \<Rightarrow> string \<Rightarrow> string option" where
  "skipChar c s = (case s of x # r \<Rightarrow> if x = c then Some r else None | [] \<Rightarrow> None)"

definition daysIn :: "int \<Rightarrow> int \<Rightarrow> int" where
  "daysIn m y =
     (if m = 2 then (if isLeapYear y then 29 else 28)
      else if m = 4 \<or> m = 6 \<or> m = 9 \<or> m = 11 then 30 else 31)"

definition parseDMY :: "string \<Rightarrow> GoTime option" where
  "parseDMY v =
     (case getnum2 v of None \<Rightarrow> None | Some (day, v1) \<Rightarrow>
      case skipChar CHR ''-'' v1 of None \<Rightarrow> None | Some v2 \<Rightarrow>
      case getnum2 v2 of None \<Rightarrow> None | Some (month, v3) \<Rightarrow>
      if month < 1 \<or> 12 < month then None else
      case skipChar CHR ''-'' v3 of None \<Rightarrow> None | Some v4 \<Rightarrow>
      if length v4 \<noteq> 4 \<or> \<not> list_all isDigit v4 then None
      else if day < 1 \<or> daysIn month (decimal v4) < day then None
      else Some (Date (decimal v4) month day 0 0 0 0 UTC))"

text \<open>
  What a driver has decided when its Jobs are enqueued, and how a run can end before:
  the usage text with exit status 1, \<^verbatim>\<open>log.Fatalf\<close> with a message (exit status 1), or
  a run-time panic.  \<open>Run\<close> carries the variables \<^verbatim>\<open>days\<close>, \<^verbatim>\<open>startDate\<close>,
  \<^verbatim>\<open>endDate\<close>, \<^verbatim>\<open>specificDate\<close> and the Jobs sent to the channel; the properties
  file is taken to be readable.  \<^verbatim>\<open>make(chan Job, days)\<close> panics for a negative size.
\<close>

record Plan =
  Days :: int
  StartDate :: GoTime
  EndDate :: GoTime
  SpecificDate :: bool
  Jobs :: "Job list"

datatype exit = Usage | Fatal string | Panic string | Run Plan

text \<open>The branch both drivers share for an argument that is a date.\<close>

definition dateArg :: "string \<Rightarrow> string + (int \<times> GoTime \<times> GoTime \<times> bool)" where
  "dateArg param =
     (case parseDMY param of
        None \<Rightarrow> Inl ''Invalid date format. Use DD-MM-YYYY''
      | Some t \<Rightarrow> Inr (1, t, AddDays t 1, True))"

text \<open>The statements of both drivers from the alignment of the dates to the closed job channel.\<close>

definition enqueue :: "string + (int \<times> GoTime \<times> GoTime \<times> bool) \<Rightarrow> exit" where
  "enqueue r =
     (case r of
        Inl msg \<Rightarrow> Fatal msg
      | Inr (days, s, e, specific) \<Rightarrow>
          (let startDate = startOfDay s; endDate = endOfDay e
           in if days < 0 then Panic ''makechan: size out of range''
              else Run \<lparr>Days = days, StartDate = startDate, EndDate = endDate,
                        SpecificDate = specific, Jobs = enqueueJobs startDate endDate\<rparr>))"

text \<open>
  The realm-side driver (eduroam-accept 2.2.0).  \<open>args\<close> is \<^verbatim>\<open>os.Args\<close>, program name
  first; \<open>now\<close> is \<^verbatim>\<open>time.Now()\<close>, a time in \<^verbatim>\<open>time.Local\<close>.
\<close>

definition realmRange :: "string list \<Rightarrow> GoTime \<Rightarrow> string + (int \<times> GoTime \<times> GoTime \<times> bool)" where
  "realmRange args now =
     (if length args = 3 then
        (case Atoi (args ! 2) of
           Some d \<Rightarrow> if d \<le> 366 then Inr (d, AddDays now (- d + 1), now, False)
                     else dateArg (args ! 2)
         | None \<Rightarrow> dateArg (args ! 2))
      else Inr (1, AddDays now (- 1), now, False))"

definition realmMain :: "string list \<Rightarrow> GoTime \<Rightarrow> exit" where
  "realmMain args now =
     (if length args < 2 \<or> 3 < length args then Usage else enqueue (realmRange args now))"

text \<open>The SP-side driver (eduroam-sp 2.2.2).\<close>

definition spRange :: "string list \<Rightarrow> GoTime \<Rightarrow> string + (int \<times> GoTime \<times> GoTime \<times> bool)" where
  "spRange args now =
     (if length args = 3 then
        (let param = args ! 2 in
         if HasPrefix param ''y'' \<and> length param = 5 then
           (case Atoi (drop 1 param) of
              Some year \<Rightarrow>
                if 2000 \<le> year \<and> year \<le> 2100
                then Inr (if isLeapYear year then 366 else 365,
                          Date year 1 1 0 0 0 0 (loc now),
                          Date year 12 31 23 59 59 999999999 (loc now), False)
                else Inl ''Invalid year range. Must be between 2000 and 2100''
            | None \<Rightarrow> Inl ''Invalid year format. Use y followed by 4 digits (e.g., y2024)'')
         else if HasSuffix param ''y'' then
           (case Atoi (TrimSuffix param ''y'') of
              Some years \<Rightarrow>
                if 1 \<le> years \<and> years \<le> 10
                then Inr (years * 365, AddDays now (- (years * 365) + 1), now, False)
                else Inl ''Invalid year range. Must be between 1y and 10y''
            | None \<Rightarrow> Inl ''Invalid year format. Use 1y-10y'')
         else
           (case Atoi param of
              Some d \<Rightarrow>
                if 1 \<le> d \<and> d \<le> 3650 then Inr (d, AddDays now (- d + 1), now, False)
                else Inl ''Invalid number of days. Must be between 1 and 3650''
            | None \<Rightarrow> dateArg param))
      else Inr (1, AddDays now (- 1), now, False))"

definition spMain :: "string list \<Rightarrow> GoTime \<Rightarrow> exit" where
  "spMain args now =
     (if length args < 2 \<or> 3 < length args then Usage else enqueue (spRange args now))"

text \<open>The Jobs a run has sent, and the width of a Job in seconds.\<close>

fun jobsOf :: "exit \<Rightarrow> Job list" where
  "jobsOf (Run p) = Jobs p"
| "jobsOf _ = []"

definition width :: "Job \<Rightarrow> int" where
  "width j = EndTimestamp j - StartTimestamp j"

text \<open>
  The Jobs of \<open>n\<close> whole days from the second \<open>S\<close> on, followed by one Job of \<open>r\<close>
  seconds; and the Jobs from the second \<open>S\<close> to the second \<open>E\<close>: whole days as long as
  they fit, then one Job for the rest.  This is the closed form of what \<open>enqueueJobs\<close>
  sends from the start of the second \<open>S\<close> to the last nanosecond of the second \<open>E\<close>.
\<close>

definition dayJobs :: "int \<Rightarrow> nat \<Rightarrow> int \<Rightarrow> Job list" where
  "dayJobs S n r =
     map (\<lambda>k. \<lparr>StartTimestamp = S + int k * 86400, EndTimestamp = S + (int k + 1) * 86400\<rparr>) [0..<n]
     @ [\<lparr>StartTimestamp = S + int n * 86400, EndTimestamp = S + int n * 86400 + r\<rparr>]"

definition jobsBetween :: "int \<Rightarrow> int \<Rightarrow> Job list" where
  "jobsBetween S E =
     (if S \<le> E then dayJobs S (nat ((E - S) div 86400)) ((E - S) mod 86400) else [])"

text \<open>
  Two locations for the examples.  A location as Asia/Almaty is in 2024: six hours east of UTC until 2024-03-01 00:00 local
  time (the instant 1709229600, 2024-02-29T18:00:00Z), five hours from then on.
\<close>

definition Almaty :: Location where
  "Almaty = \<lparr>firstOffset = 21600, tx = [(1709229600, 18000)]\<rparr>"

text \<open>
  A location as America/New_York is in 2024: five hours west of UTC, four hours west from
  2024-03-10 02:00 local time (the instant 1710054000) until 2024-11-03 02:00 local time
  (the instant 1730613600).
\<close>

definition NewYork :: Location where
  "NewYork = \<lparr>firstOffset = - 18000, tx = [(1710054000, - 14400), (1730613600, - 18000)]\<rparr>"

section \<open>The line parser (v1.5.5/main.go)\<close>

subsection \<open>Library functions of the parser\<close>

text \<open>
  \<^verbatim>\<open>strings.Fields(s)\<close> splits \<open>s\<close> around runs of white space, as \<^verbatim>\<open>unicode.IsSpace\<close>
  defines it, and returns the non-empty pieces in a slice whose capacity is its length.
  \<open>spaceLen s\<close> is the number of bytes of the white-space character \<open>s\<close> starts with,
  0 when it starts with none: the six ASCII characters, and the UTF-8 encodings of U+0085,
  U+00A0, U+1680, U+2000 to U+200A, U+2028, U+2029, U+202F, U+205F and U+3000.
\<close>

definition asciiSpace :: "char list" where
  "asciiSpace = [CHR 0x09, CHR 0x0A, CHR 0x0B, CHR 0x0C, CHR 0x0D, CHR 0x20]"

definition unicodeSpace2 :: "string list" where
  "unicodeSpace2 = [[CHR 0xC2, CHR 0x85], [CHR 0xC2, CHR 0xA0]]"

definition unicodeSpace3 :: "string list" where
  "unicodeSpace3 =
     [[CHR 0xE1, CHR 0x9A, CHR 0x80],
      [CHR 0xE2, CHR 0x80, CHR 0x80], [CHR 0xE2, CHR 0x80, CHR 0x81],
      [CHR 0xE2, CHR 0x80, CHR 0x82], [CHR 0xE2, CHR 0x80, CHR 0x83],
      [CHR 0xE2, CHR 0x80, CHR 0x84], [CHR 0xE2, CHR 0x80, CHR 0x85],
      [CHR 0xE2, CHR 0x80, CHR 0x86], [CHR 0xE2, CHR 0x80, CHR 0x87],
      [CHR 0xE2, CHR 0x80, CHR 0x88], [CHR 0xE2, CHR 0x80, CHR 0x89],
      [CHR 0xE2, CHR 0x80, CHR 0x8A],
      [CHR 0xE2, CHR 0x80, CHR 0xA8], [CHR 0xE2, CHR 0x80, CHR 0xA9],
      [CHR 0xE2, CHR 0x80, CHR 0xAF], [CHR 0xE2, CHR 0x81, CHR 0x9F],
      [CHR 0xE3, CHR 0x80, CHR 0x80]]"

definition spaceLen :: "string \<Rightarrow> nat" where
  "spaceLen s =
     (if s = [] then 0
      else if hd s \<in> set asciiSpace then 1
      else if take 2 s \<in> set unicodeSpace2 then 2
      else if take 3 s \<in> set unicodeSpace3 then 3
      else 0)"

text \<open>\<open>fieldsFrom cur s\<close>: the fields of \<open>s\<close> after the bytes \<open>cur\<close> of a field begun.\<close>

function fieldsFrom :: "string \<Rightarrow> string \<Rightarrow> string list" where
  "fieldsFrom cur s =
     (if s = [] then (if cur = [] then [] else [cur])
      else if spaceLen s = 0 then fieldsFrom (cur @ [hd s]) (tl s)
      else (if cur = [] then [] else [cur]) @ fieldsFrom [] (drop (spaceLen s) s))"
  by pat_completeness auto
termination
  by (relation "measure (\<lambda>(cur, s). length s)") (auto simp: neq_Nil_conv)

declare fieldsFrom.simps [simp del]

definition Fields :: "string \<Rightarrow> string list" where
  "Fields s = fieldsFrom [] s"

text \<open>\<^verbatim>\<open>strings.Join(elems, sep)\<close>.\<close>

fun Join :: "string list \<Rightarrow> string \<Rightarrow> string" where
  "Join [] sep = []"
| "Join [x] sep = x"
| "Join (x # y # r) sep = x @ sep @ Join (y # r) sep"

text \<open>\<^verbatim>\<open>strings.Index(s, substr)\<close>: the first position of \<open>substr\<close> in \<open>s\<close>, or -1.\<close>

fun Index :: "string \<Rightarrow> string \<Rightarrow> int" where
  "Index [] sub = (if sub = [] then 0 else - 1)"
| "Index (c # s) sub =
     (if HasPrefix (c # s) sub then 0
      else (let r = Index s sub in if r < 0 then - 1 else r + 1))"

text \<open>\<^verbatim>\<open>strings.Trim(s, cutset)\<close>: \<open>s\<close> without leading and trailing characters of \<open>cutset\<close>.\<close>

definition Trim :: "string \<Rightarrow> string \<Rightarrow> string" where
  "Trim s cutset =
     rev (dropWhile (\<lambda>c. c \<in> set cutset) (rev (dropWhile (\<lambda>c. c \<in> set cutset) s)))"

subsection \<open>Timestamps\<close>

text \<open>
  The date and time fields that \<^verbatim>\<open>time.Parse\<close> reads, with the nanoseconds of a
  fractional second and the zone offset in seconds east of UTC.  A successful parse has
  validated the fields, so \<^verbatim>\<open>Format\<close> prints them back as they were read; the layout
  \<^verbatim>\<open>time.RFC3339\<close> prints no fractional second.
\<close>

record Civil =
  cYear :: int
  cMonth :: int
  cDay :: int
  cHour :: int
  cMinute :: int
  cSecond :: int
  cNano :: int
  cOffset :: int

definition toTime :: "Civil \<Rightarrow> GoTime" where
  "toTime c =
     Date (cYear c) (cMonth c) (cDay c) (cHour c) (cMinute c) (cSecond c) (cNano c)
       (FixedZone (cOffset c))"

text \<open>
  The helpers of the library's parser: \<open>getnum\<close> reads one or two digits (exactly two
  when \<open>fixed\<close>); \<open>skipSpace\<close> matches a space of the layout (nothing, or a run of
  spaces, in the value); \<open>fraction\<close> reads a fractional second that follows the
  seconds, a period or a comma and digits, of which the first nine count
  (\<^verbatim>\<open>parseNanoseconds\<close>), and gives 0 when there is none; \<open>longYear\<close> reads the four
  digits of a year.
\<close>

definition getnum :: "string \<Rightarrow> bool \<Rightarrow> (int \<times> string) option" where
  "getnum s fixed =
     (case s of
        [] \<Rightarrow> None
      | a # r \<Rightarrow>
          if \<not> isDigit a then None
          else (case r of
                  [] \<Rightarrow> if fixed then None else Some (digitVal a, r)
                | b # r' \<Rightarrow>
                    if isDigit b then Some (digitVal a * 10 + digitVal b, r')
                    else if fixed then None else Some (digitVal a, r)))"

definition skipSpace :: "string \<Rightarrow> string option" where
  "skipSpace v =
     (if v = [] then Some v
      else if hd v = CHR '' '' then Some (dropWhile (\<lambda>c. c = CHR '' '') v) else None)"

definition fraction :: "string \<Rightarrow> int \<times> string" where
  "fraction v =
     (if 2 \<le> length v \<and> (hd v = CHR ''.'' \<or> hd v = CHR '','') \<and> isDigit (v ! 1)
      then (let ds = take 9 (takeWhile isDigit (tl v))
            in (decimal ds * 10 ^ (9 - length ds), dropWhile isDigit (tl v)))
      else (0, v))"

definition longYear :: "string \<Rightarrow> (int \<times> string) option" where
  "longYear v =
     (if 4 \<le> length v \<and> list_all isDigit (take 4 v) then Some (decimal (take 4 v), drop 4 v)
      else None)"

text \<open>
  The hours, minutes and seconds \<^verbatim>\<open>15:04:05\<close> of both layouts, with a fractional second
  accepted after the seconds although the layout has none.
\<close>

definition clock :: "string \<Rightarrow> ((int \<times> int \<times> int \<times> int) \<times> string) option" where
  "clock v =
     (case getnum v False of None \<Rightarrow> None | Some (hour, v1) \<Rightarrow>
      if 24 \<le> hour then None else
      case skipChar CHR '':'' v1 of None \<Rightarrow> None | Some v2 \<Rightarrow>
      case getnum v2 True of None \<Rightarrow> None | Some (minute, v3) \<Rightarrow>
      if 60 \<le> minute then None else
      case skipChar CHR '':'' v3 of None \<Rightarrow> None | Some v4 \<Rightarrow>
      case getnum v4 True of None \<Rightarrow> None | Some (second, v5) \<Rightarrow>
      if 60 \<le> second then None
      else (case fraction v5 of (nano, v6) \<Rightarrow> Some ((hour, minute, second, nano), v6)))"

text \<open>
  The zone \<^verbatim>\<open>Z07:00\<close> of the RFC 3339 layout: the letter Z, or a sign, two digits of
  hours (at most 24), a colon and two digits of minutes (at most 60).
\<close>

definition zone :: "string \<Rightarrow> (int \<times> string) option" where
  "zone v =
     (if v \<noteq> [] \<and> hd v = CHR ''Z'' then Some (0, tl v)
      else if length v < 6 then None
      else if v ! 3 = CHR '':'' then
        (case (getnum [v ! 1, v ! 2] True, getnum [v ! 4, v ! 5] True) of
           (Some (hr, _), Some (mm, _)) \<Rightarrow>
             if 24 < hr \<or> 60 < mm then None
             else if hd v = CHR ''+'' then Some ((hr * 60 + mm) * 60, drop 6 v)
             else if hd v = CHR ''-'' then Some (- ((hr * 60 + mm) * 60), drop 6 v)
             else None
         | _ \<Rightarrow> None)
      else None)"

text \<open>
  \<^verbatim>\<open>time.Parse(time.RFC3339, value)\<close>, the layout \<^verbatim>\<open>2006-01-02T15:04:05Z07:00\<close>: every
  element of the layout must be found in the value, the zone included, nothing may follow,
  and the day must exist in the month.
\<close>

definition validDay :: "Civil \<Rightarrow> bool" where
  "validDay c = (1 \<le> cDay c \<and> cDay c \<le> daysIn (cMonth c) (cYear c))"

definition parseRFC3339 :: "string \<Rightarrow> Civil option" where
  "parseRFC3339 v =
     (case longYear v of None \<Rightarrow> None | Some (year, v1) \<Rightarrow>
      case skipChar CHR ''-'' v1 of None \<Rightarrow> None | Some v2 \<Rightarrow>
      case getnum v2 True of None \<Rightarrow> None | Some (month, v3) \<Rightarrow>
      if month < 1 \<or> 12 < month then None else
      case skipChar CHR ''-'' v3 of None \<Rightarrow> None | Some v4 \<Rightarrow>
      case getnum v4 True of None \<Rightarrow> None | Some (day, v5) \<Rightarrow>
      case skipChar CHR ''T'' v5 of None \<Rightarrow> None | Some v6 \<Rightarrow>
      case clock v6 of None \<Rightarrow> None | Some ((hour, minute, second, nano), v7) \<Rightarrow>
      case zone v7 of None \<Rightarrow> None | Some (off, v8) \<Rightarrow>
      (let c = \<lparr>cYear = year, cMonth = month, cDay = day, cHour = hour, cMinute = minute,
                cSecond = second, cNano = nano, cOffset = off\<rparr>
       in if v8 = [] \<and> validDay c then Some c else None))"

text \<open>
  \<^verbatim>\<open>time.Parse("Jan 2 15:04:05 2006", value)\<close>.  The month is one of the twelve
  three-letter names, compared without regard to case as the library's \<^verbatim>\<open>match\<close> does
  (bit 32 set in both bytes, which must then be a lower-case letter).
\<close>

definition lowerBit :: "char \<Rightarrow> nat" where
  "lowerBit c = (if (of_char c div 32) mod 2 = (0::nat) then of_char c + 32 else of_char c)"

definition matchChar :: "char \<Rightarrow> char \<Rightarrow> bool" where
  "matchChar c1 c2 =
     (c1 = c2 \<or> (lowerBit c1 = lowerBit c2 \<and> 97 \<le> lowerBit c1 \<and> lowerBit c1 \<le> 122))"

definition shortMonthNames :: "string list" where
  "shortMonthNames =
     [''Jan'', ''Feb'', ''Mar'', ''Apr'', ''May'', ''Jun'',
      ''Jul'', ''Aug'', ''Sep'', ''Oct'', ''Nov'', ''Dec'']"

fun lookup :: "string list \<Rightarrow> int \<Rightarrow> string \<Rightarrow> (int \<times> string) option" where
  "lookup [] i v = None"
| "lookup (n # tab) i v =
     (if length n \<le> length v \<and> list_all2 matchChar (take (length n) v) n
      then Some (i, drop (length n) v) else lookup tab (i + 1) v)"

definition parseStamp :: "string \<Rightarrow> Civil option" where
  "parseStamp v =
     (case lookup shortMonthNames 1 v of None \<Rightarrow> None | Some (month, v1) \<Rightarrow>
      case skipSpace v1 of None \<Rightarrow> None | Some v2 \<Rightarrow>
      case getnum v2 False of None \<Rightarrow> None | Some (day, v3) \<Rightarrow>
      case skipSpace v3 of None \<Rightarrow> None | Some v4 \<Rightarrow>
      case clock v4 of None \<Rightarrow> None | Some ((hour, minute, second, nano), v5) \<Rightarrow>
      case skipSpace v5 of None \<Rightarrow> None | Some v6 \<Rightarrow>
      case longYear v6 of None \<Rightarrow> None | Some (year, v7) \<Rightarrow>
      (let c = \<lparr>cYear = year, cMonth = month, cDay = day, cHour = hour, cMinute = minute,
                cSecond = second, cNano = nano, cOffset = 0\<rparr>
       in if v7 = [] \<and> validDay c then Some c else None))"

text \<open>
  \<^verbatim>\<open>t.Format(time.RFC3339)\<close>: the fields padded with zeros, then \<^verbatim>\<open>Z\<close> for the offset 0
  and the signed hours and minutes of the offset otherwise.
\<close>

definition pad :: "nat \<Rightarrow> int \<Rightarrow> string" where
  "pad w i = replicate (w - length (showNat (nat i))) CHR ''0'' @ showNat (nat i)"

definition formatRFC3339 :: "Civil \<Rightarrow> string" where
  "formatRFC3339 c =
     pad 4 (cYear c) @ ''-'' @ pad 2 (cMonth c) @ ''-'' @ pad 2 (cDay c) @ ''T'' @
     pad 2 (cHour c) @ '':'' @ pad 2 (cMinute c) @ '':'' @ pad 2 (cSecond c) @
     (if cOffset c = 0 then ''Z''
      else (if cOffset c < 0 then ''-'' else ''+'') @
           pad 2 ((\<bar>cOffset c\<bar> div 60) div 60) @ '':'' @ pad 2 ((\<bar>cOffset c\<bar> div 60) mod 60))"

text \<open>\<^verbatim>\<open>t.Year()\<close>: the year of the day of \<open>t\<close> in its location.\<close>

definition yearOfDay :: "int \<Rightarrow> int" where
  "yearOfDay days =
     (let z = days + 719468;
          era = z div 146097;
          doe = z - era * 146097;
          yoe = (doe - doe div 1460 + doe div 36524 - doe div 146096) div 365;
          doy = doe - (365 * yoe + yoe div 4 - yoe div 100);
          mp = (5 * doy + 2) div 153
      in yoe + era * 400 + (if mp < 10 then 0 else 1))"

definition YearOf :: "GoTime \<Rightarrow> int" where
  "YearOf t = yearOfDay (localDay t)"

text \<open>
  \<^verbatim>\<open>parseTimestamp\<close>; \<open>now\<close> is \<^verbatim>\<open>time.Now()\<close>.  \<open>None\<close> is the error
  \<^verbatim>\<open>unable to parse timestamp\<close>.
\<close>

definition parseTimestamp :: "GoTime \<Rightarrow> string \<Rightarrow> Civil option" where
  "parseTimestamp now timestampStr =
     (case parseRFC3339 timestampStr of
        Some timestamp \<Rightarrow> Some timestamp
      | None \<Rightarrow>
          (case parseStamp (timestampStr @ '' '' @ showInt (YearOf now)) of
             None \<Rightarrow> None
           | Some timestamp \<Rightarrow>
               if After (toTime timestamp) now \<and> cMonth timestamp = 12
               then Some (timestamp\<lparr>cYear := cYear timestamp - 1\<rparr>)
               else Some timestamp))"

subsection \<open>Entries and \<^verbatim>\<open>parseLine\<close>\<close>

text \<open>
  The struct \<^verbatim>\<open>LogEntry\<close> of the ingestion program.  A \<^verbatim>\<open>net.IP\<close> is a byte slice,
  modelled as a list of numbers, the nil slice as the empty list.
\<close>

record LogEntry =
  Timestamp :: string
  Hostname :: string
  Process :: string
  PID :: int
  LogLevel :: string
  MessageType :: string
  FullMessage :: string
  SourceIP :: "nat list"
  DestinationIP :: "nat list"
  Username :: string
  StationID :: string
  Status :: string
  Realm :: string
  ServiceProvider :: string
  ErrorMessage :: string
  RequestID :: int
  UDPPeer :: "nat list"
  Action :: string
  RepeatCount :: int

text \<open>The zero value of the struct with \<^verbatim>\<open>FullMessage\<close> set, as \<^verbatim>\<open>parseLine\<close> starts.\<close>

definition newEntry :: "string \<Rightarrow> LogEntry" where
  "newEntry line =
     \<lparr>Timestamp = [], Hostname = [], Process = [], PID = 0, LogLevel = [], MessageType = [],
      FullMessage = line, SourceIP = [], DestinationIP = [], Username = [], StationID = [],
      Status = [], Realm = [], ServiceProvider = [], ErrorMessage = [], RequestID = 0,
      UDPPeer = [], Action = [], RepeatCount = 0\<rparr>"

text \<open>
  How a call can end without a value: with a returned error (its message), or with a
  run-time panic, which ends the process.
\<close>

datatype failure = Error string | Panicked string

text \<open>
  The loop over \<^verbatim>\<open>parts[startIndex+2:]\<close> for the Access kinds, for the loop indices
  \<open>is\<close> still to come.  \<open>ParseIP\<close> stands for \<^verbatim>\<open>net.ParseIP\<close>.  An index expression
  \<^verbatim>\<open>parts[k]\<close> with \<open>k\<close> not below \<^verbatim>\<open>len(parts)\<close> panics.
\<close>

fun accessFields ::
  "(string \<Rightarrow> nat list) \<Rightarrow> string list \<Rightarrow> nat \<Rightarrow> nat list \<Rightarrow> LogEntry \<Rightarrow> failure + LogEntry" where
  "accessFields ParseIP parts startIndex [] entry = Inr entry"
| "accessFields ParseIP parts startIndex (i # is) entry =
     (let part = parts ! (startIndex + 2 + i) in
      if HasPrefix part ''user'' then
        (if i + startIndex + 3 < length parts
         then accessFields ParseIP parts startIndex is
                (entry\<lparr>Username := parts ! (i + startIndex + 3)\<rparr>)
         else Inl (Panicked ''index out of range''))
      else if HasPrefix part ''stationid'' then
        (if i + startIndex + 3 < length parts
         then accessFields ParseIP parts startIndex is
                (entry\<lparr>StationID := parts ! (i + startIndex + 3)\<rparr>)
         else Inl (Panicked ''index out of range''))
      else if part = ''from'' then
        (if i + startIndex + 3 < length parts
         then accessFields ParseIP parts startIndex is
                (entry\<lparr>Realm := parts ! (i + startIndex + 3)\<rparr>)
         else Inl (Panicked ''index out of range''))
      else if part = ''to'' then
        (if i + startIndex + 3 < length parts
         then accessFields ParseIP parts startIndex is
                (if i + startIndex + 4 < length parts
                 then entry\<lparr>ServiceProvider := parts ! (i + startIndex + 3),
                            DestinationIP := ParseIP (Trim (parts ! (i + startIndex + 4)) ''()'')\<rparr>
                 else entry\<lparr>ServiceProvider := parts ! (i + startIndex + 3)\<rparr>)
         else Inl (Panicked ''index out of range''))
      else accessFields ParseIP parts startIndex is entry)"

text \<open>The process name and the optional bracketed process id of \<^verbatim>\<open>parts[startIndex]\<close>.\<close>

definition processAndPID :: "string \<Rightarrow> LogEntry \<Rightarrow> LogEntry" where
  "processAndPID processWithPID entry =
     (let pidStart = Index processWithPID ''['';
          pidEnd = Index processWithPID '']''
      in if pidStart \<noteq> - 1 \<and> pidEnd \<noteq> - 1 \<and> pidStart < pidEnd then
           (case Atoi (take (nat pidEnd - (nat pidStart + 1)) (drop (nat pidStart + 1) processWithPID)) of
              Some pid \<Rightarrow> entry\<lparr>Process := take (nat pidStart) processWithPID, PID := pid\<rparr>
            | None \<Rightarrow> entry\<lparr>Process := take (nat pidStart) processWithPID\<rparr>)
         else entry\<lparr>Process := processWithPID\<rparr>)"

text \<open>
  \<^verbatim>\<open>parseLine\<close>.  The slice expression \<^verbatim>\<open>parts[startIndex:startIndex+3]\<close> panics when
  \<^verbatim>\<open>startIndex+3\<close> exceeds the capacity of \<^verbatim>\<open>parts\<close>, which is its length.
\<close>

definition parseLine :: "(string \<Rightarrow> nat list) \<Rightarrow> GoTime \<Rightarrow> string \<Rightarrow> failure + LogEntry" where
  "parseLine ParseIP now line =
     (let entry = newEntry line;
          parts = Fields line
      in if length parts < 5 then Inl (Error ''invalid log format: not enough parts'')
         else
           (let iso = Contains (parts ! 0) ''T'';
                timestampStr = (if iso then parts ! 0 else Join (take 3 parts) '' '');
                entry = entry\<lparr>Hostname := (if iso then parts ! 1 else parts ! 3)\<rparr>;
                startIndex = (if iso then 2 else 4)
            in case parseTimestamp now timestampStr of
                 None \<Rightarrow> Inl (Error ''invalid timestamp: unable to parse timestamp'')
               | Some timestamp \<Rightarrow>
                   (let entry = entry\<lparr>Timestamp := formatRFC3339 timestamp\<rparr> in
                    if length parts < startIndex + 3
                    then Inl (Panicked ''slice bounds out of range'')
                    else if Join (take 3 (drop startIndex parts)) '' '' = ''last message repeated''
                    then
                      (case Atoi (TrimSuffix (parts ! (length parts - 2)) '' times'') of
                         Some repeatCount \<Rightarrow>
                           Inr (entry\<lparr>Process := ''system'', MessageType := ''repeat'',
                                      RepeatCount := repeatCount\<rparr>)
                       | None \<Rightarrow> Inr (entry\<lparr>Process := ''system'', MessageType := ''repeat''\<rparr>))
                    else
                      (let entry = processAndPID (parts ! startIndex) entry in
                       if startIndex + 1 < length parts then
                         (let entry = entry\<lparr>MessageType := TrimSuffix (parts ! (startIndex + 1)) '':''\<rparr>
                          in if MessageType entry = ''Access-Accept'' \<or>
                                MessageType entry = ''Access-Reject'' \<or>
                                MessageType entry = ''Access-Challenge''
                             then accessFields ParseIP parts startIndex
                                    [0 ..< length parts - (startIndex + 2)] entry
                             else Inr entry)
                       else Inr entry))))"

section \<open>Configuration of the ingestion program (v1.5.5/main.go)\<close>

text \<open>
  \<^verbatim>\<open>strings.TrimSpace(s)\<close>: \<open>s\<close> without leading and trailing white space, the white
  space of \<^verbatim>\<open>unicode.IsSpace\<close> as for \<open>Fields\<close>.  \<open>spaceLenEnd s\<close> is the number of
  bytes of the white-space character \<open>s\<close> ends with, 0 when it ends with none.
\<close>

definition spaceLenEnd :: "string \<Rightarrow> nat" where
  "spaceLenEnd s =
     (if s = [] then 0
      else if last s \<in> set asciiSpace then 1
      else if 2 \<le> length s \<and> drop (length s - 2) s \<in> set unicodeSpace2 then 2
      else if 3 \<le> length s \<and> drop (length s - 3) s \<in> set unicodeSpace3 then 3
      else 0)"

function trimLeft :: "string \<Rightarrow> string" where
  "trimLeft s = (if spaceLen s = 0 then s else trimLeft (drop (spaceLen s) s))"
  by pat_completeness auto
termination
  by (relation "measure length") (auto simp: spaceLen_def split: if_splits)

function trimRight :: "string \<Rightarrow> string" where
  "trimRight s = (if spaceLenEnd s = 0 then s else trimRight (take (length s - spaceLenEnd s) s))"
  by pat_completeness auto
termination
  by (relation "measure length") (auto simp: spaceLenEnd_def split: if_splits)

declare trimLeft.simps [simp del] trimRight.simps [simp del]

definition TrimSpace :: "string \<Rightarrow> string" where
  "TrimSpace s = trimRight (trimLeft s)"

text \<open>The struct \<^verbatim>\<open>Config\<close>; its field \<^verbatim>\<open>Username\<close> is written \<open>Username_cfg\<close> here.\<close>

record Config =
  LogFilePath :: string
  QuickwitURL :: string
  Username_cfg :: string
  Password :: string
  BatchSize :: int
  MaxRetries :: int

definition defaultConfig :: Config where
  "defaultConfig =
     \<lparr>LogFilePath = [], QuickwitURL = [], Username_cfg = [], Password = [],
      BatchSize = 30000, MaxRetries = 3\<rparr>"

text \<open>
  The key and the value that the loop body of \<^verbatim>\<open>loadConfig\<close> takes from one line of the
  file: none for a blank line, a comment, or a line without \<^verbatim>\<open>=\<close>
  (\<^verbatim>\<open>strings.SplitN(line, "=", 2)\<close> cuts at the first \<^verbatim>\<open>=\<close>); the value has its
  surrounding double quotes removed.
\<close>

definition keyValue :: "string \<Rightarrow> (string \<times> string) option" where
  "keyValue raw =
     (let line = TrimSpace raw in
      if line = [] \<or> HasPrefix line ''#'' then None
      else if Index line ''='' < 0 then None
      else Some (TrimSpace (take (nat (Index line ''='')) line),
                 Trim (TrimSpace (drop (nat (Index line ''='') + 1) line)) [CHR 0x22]))"

text \<open>The \<^verbatim>\<open>switch key\<close> of the loop body.\<close>

definition setKey :: "string \<Rightarrow> string \<Rightarrow> Config \<Rightarrow> Config" where
  "setKey key v config =
     (if key = ''logFilePath'' then config\<lparr>LogFilePath := v\<rparr>
      else if key = ''quickwitURL'' then config\<lparr>QuickwitURL := v\<rparr>
      else if key = ''username'' then config\<lparr>Username_cfg := v\<rparr>
      else if key = ''password'' then config\<lparr>Password := v\<rparr>
      else if key = ''batchSize'' then
        (case Atoi v of Some i \<Rightarrow> config\<lparr>BatchSize := i\<rparr> | None \<Rightarrow> config)
      else if key = ''maxRetries'' then
        (case Atoi v of Some i \<Rightarrow> config\<lparr>MaxRetries := i\<rparr> | None \<Rightarrow> config)
      else config)"

definition configLine :: "Config \<Rightarrow> string \<Rightarrow> Config" where
  "configLine config raw =
     (case keyValue raw of None \<Rightarrow> config | Some (key, v) \<Rightarrow> setKey key v config)"

text \<open>
  \<^verbatim>\<open>loadConfig\<close> returns a \<^verbatim>\<open>Config\<close> and an error (\<open>None\<close> is \<^verbatim>\<open>nil\<close>).  The file
  is \<open>None\<close> when it cannot be opened and otherwise the lines the scanner yields;
  \<open>scanErr\<close> tells whether the scanner ends with an error.
\<close>

definition loadConfig :: "string list option \<Rightarrow> bool \<Rightarrow> Config \<times> string option" where
  "loadConfig file scanErr =
     (case file of
        None \<Rightarrow> (defaultConfig, Some ''open: no such file or directory'')
      | Some lines \<Rightarrow>
          (let config = foldl configLine defaultConfig lines in
           if scanErr then (config, Some ''scanner error'')
           else if LogFilePath config = [] \<or> QuickwitURL config = [] \<or>
                   Username_cfg config = [] \<or> Password config = []
           then (config, Some ''missing required configuration'')
           else (config, None)))"

text \<open>
  A line that sets the key \<open>k\<close>, and a line that sets it to a value that
  \<^verbatim>\<open>strconv.Atoi\<close> rejects.
\<close>

definition hasKey :: "string \<Rightarrow> string \<Rightarrow> bool" where
  "hasKey k raw = (case keyValue raw of None \<Rightarrow> False | Some (key, v) \<Rightarrow> key = k)"

definition unparsed :: "string \<Rightarrow> string \<Rightarrow> bool" where
  "unparsed k raw =
     (case keyValue raw of None \<Rightarrow> False | Some (key, v) \<Rightarrow> key = k \<and> Atoi v = None)"

definition badNumber :: "string \<Rightarrow> bool" where
  "badNumber raw = (unparsed ''batchSize'' raw \<or> unparsed ''maxRetries'' raw)"

section \<open>Folding an aggregation response (eduroam-accept 2.2.0, eduroam-sp 2.2.2)\<close>

text \<open>
  A \<^verbatim>\<open>float64\<close> that a JSON number decodes to is finite, and is modelled as the rational
  number it stands for.  \<open>roundFloat64 q\<close> is the \<^verbatim>\<open>float64\<close> nearest to \<open>q\<close>, ties
  to the even mantissa: a mantissa of 53 bits, and an exponent no lower than that of the
  subnormal numbers.  It is used on quotients of a \<^verbatim>\<open>float64\<close> by 1000, which do not
  overflow.  \<open>bitLength n\<close> is the number of binary digits of \<open>n\<close>, \<open>pow2 e\<close> the
  power of 2 with the integer exponent \<open>e\<close>, and \<open>ilog2 q\<close> the exponent of the
  greatest power of 2 not above the positive number \<open>q\<close>.
\<close>

function bitLength :: "int \<Rightarrow> nat" where
  "bitLength n = (if n \<le> 0 then 0 else Suc (bitLength (n div 2)))"
  by pat_completeness auto
termination
  by (relation "measure nat") auto

declare bitLength.simps [simp del]

definition pow2 :: "int \<Rightarrow> rat" where
  "pow2 e = (if 0 \<le> e then 2 ^ nat e else 1 / 2 ^ nat (- e))"

definition ilog2 :: "rat \<Rightarrow> int" where
  "ilog2 q =
     (let k = int (bitLength (fst (quotient_of q))) - int (bitLength (snd (quotient_of q)))
      in if pow2 k \<le> q then k else k - 1)"

definition roundHalfEven :: "rat \<Rightarrow> int" where
  "roundHalfEven q =
     (let f = \<lfloor>q\<rfloor>; r = q - of_int f
      in if r < 1 / 2 then f else if 1 / 2 < r then f + 1 else if even f then f else f + 1)"

definition roundFloat64 :: "rat \<Rightarrow> rat" where
  "roundFloat64 q =
     (if q = 0 then 0
      else (let e = max (ilog2 \<bar>q\<bar> - 52) (- 1074)
            in sgn q * of_int (roundHalfEven (\<bar>q\<bar> / pow2 e)) * pow2 e))"

text \<open>
  The conversion \<^verbatim>\<open>int64(f)\<close> of a \<^verbatim>\<open>float64\<close>: the fraction is dropped (rounding
  towards zero).  For a value outside \<^verbatim>\<open>int64\<close> the language leaves the result to the
  implementation; the value taken here is the one of amd64, the smallest \<^verbatim>\<open>int64\<close>.
  \<open>wrap64\<close> is the wrap-around of \<^verbatim>\<open>int64\<close> arithmetic.
\<close>

definition toInt64 :: "rat \<Rightarrow> int" where
  "toInt64 f =
     (let i = (if f < 0 then - \<lfloor>- f\<rfloor> else \<lfloor>f\<rfloor>)
      in if - (2 ^ 63) \<le> i \<and> i < 2 ^ 63 then i else - (2 ^ 63))"

definition wrap64 :: "int \<Rightarrow> int" where
  "wrap64 i = (i + 2 ^ 63) mod 2 ^ 64 - 2 ^ 63"

text \<open>
  A JSON value as \<^verbatim>\<open>json.Unmarshal\<close> decodes it into an \<^verbatim>\<open>interface{}\<close>: nil, a bool,
  a \<^verbatim>\<open>float64\<close>, a string, a slice or a map from strings.  A map is an association
  list; \<open>field m k\<close> is the Go expression \<^verbatim>\<open>m[k]\<close>, nil for a missing key.
\<close>

datatype json =
  JNull | JBool bool | JNumber rat | JString string | JArray "json list"
  | JObject "(string \<times> json) list"

definition field :: "(string \<times> json) list \<Rightarrow> string \<Rightarrow> json" where
  "field m k = (case map_of m k of Some v \<Rightarrow> v | None \<Rightarrow> JNull)"

text \<open>
  The type assertions \<^verbatim>\<open>v.(map[string]interface{})\<close>, \<^verbatim>\<open>v.([]interface{})\<close>,
  \<^verbatim>\<open>v.(string)\<close> and \<^verbatim>\<open>v.(float64)\<close>; \<open>None\<close> is \<^verbatim>\<open>ok == false\<close> in the two-value
  form, and a run-time panic in the one-value form.
\<close>

fun asMap :: "json \<Rightarrow> (string \<times> json) list option" where
  "asMap (JObject m) = Some m"
| "asMap _ = None"

fun asArray :: "json \<Rightarrow> json list option" where
  "asArray (JArray a) = Some a"
| "asArray _ = None"

fun asString :: "json \<Rightarrow> string option" where
  "asString (JString s) = Some s"
| "asString _ = None"

fun asNumber :: "json \<Rightarrow> rat option" where
  "asNumber (JNumber n) = Some n"
| "asNumber _ = None"

text \<open>
  \<^verbatim>\<open>int64(key / 1000)\<close> for a \<^verbatim>\<open>float64\<close> key: the quotient is a \<^verbatim>\<open>float64\<close>, the
  one nearest to the exact quotient, and the conversion drops its fraction.
\<close>

definition millisToSeconds :: "rat \<Rightarrow> int" where
  "millisToSeconds k = toInt64 (roundFloat64 (k / 1000))"

text \<open>
  The struct \<^verbatim>\<open>LogEntry\<close> of the realm-side program, here \<open>AcceptEntry\<close>; its timestamp
  is kept as Unix seconds.
\<close>

record AcceptEntry =
  Username_a :: string
  ServiceProvider_a :: string
  Timestamp_a :: int

text \<open>
  \<^verbatim>\<open>processUserProviderDaily\<close>: the loop over the buckets of the \<^verbatim>\<open>daily\<close> histogram,
  then the function.  The result is the entries sent to the channel, in order, or the
  panic of a one-value type assertion.
\<close>

fun dailyBuckets :: "string \<Rightarrow> string \<Rightarrow> json list \<Rightarrow> failure + AcceptEntry list" where
  "dailyBuckets username provider [] = Inr []"
| "dailyBuckets username provider (b # bs) =
     (case asMap b of
        None \<Rightarrow> dailyBuckets username provider bs
      | Some dailyBucket \<Rightarrow>
          (case asNumber (field dailyBucket ''doc_count'') of
             None \<Rightarrow> Inl (Panicked ''interface conversion: doc_count is not float64'')
           | Some n \<Rightarrow>
               if n = 0 then dailyBuckets username provider bs
               else
                 (case asNumber (field dailyBucket ''key'') of
                    None \<Rightarrow> Inl (Panicked ''interface conversion: key is not float64'')
                  | Some k \<Rightarrow>
                      (case dailyBuckets username provider bs of
                         Inl f \<Rightarrow> Inl f
                       | Inr es \<Rightarrow>
                           Inr (\<lparr>Username_a = username, ServiceProvider_a = provider,
                                 Timestamp_a = millisToSeconds k\<rparr> # es)))))"

definition processUserProviderDaily ::
  "(string \<times> json) list \<Rightarrow> string \<Rightarrow> string \<Rightarrow> failure + AcceptEntry list" where
  "processUserProviderDaily bucket username provider =
     (case asMap (field bucket ''daily'') of
        None \<Rightarrow> Inr []
      | Some dailyAgg \<Rightarrow>
          (case asArray (field dailyAgg ''buckets'') of
             None \<Rightarrow> Inr []
           | Some bs \<Rightarrow> dailyBuckets username provider bs))"

text \<open>\<^verbatim>\<open>processUserBucket\<close>: the loop over the provider buckets, then the function.\<close>

fun providerBuckets ::
  "(string \<times> json) list \<Rightarrow> string \<Rightarrow> json list \<Rightarrow> failure + AcceptEntry list" where
  "providerBuckets bucket username [] = Inr []"
| "providerBuckets bucket username (b # bs) =
     (case asMap b of
        None \<Rightarrow> providerBuckets bucket username bs
      | Some providerBucket \<Rightarrow>
          (case asString (field providerBucket ''key'') of
             None \<Rightarrow> Inl (Panicked ''interface conversion: key is not string'')
           | Some provider \<Rightarrow>
               (case processUserProviderDaily bucket username provider of
                  Inl f \<Rightarrow> Inl f
                | Inr es \<Rightarrow>
                    (case providerBuckets bucket username bs of
                       Inl f \<Rightarrow> Inl f
                     | Inr es' \<Rightarrow> Inr (es @ es')))))"

definition processUserBucket :: "(string \<times> json) list \<Rightarrow> string \<Rightarrow> failure + AcceptEntry list" where
  "processUserBucket bucket username =
     (case asMap (field bucket ''providers'') of
        None \<Rightarrow> Inr []
      | Some providersAgg \<Rightarrow>
          (case asArray (field providersAgg ''buckets'') of
             None \<Rightarrow> Inr []
           | Some bs \<Rightarrow> providerBuckets bucket username bs))"

text \<open>
  \<^verbatim>\<open>processAggregations\<close> of the realm side: the loop over the user buckets with the
  running \<^verbatim>\<open>totalHits\<close>, then the function.  It returns the total and the entries sent,
  an error, or panics.
\<close>

fun userBuckets :: "json list \<Rightarrow> failure + (int \<times> AcceptEntry list)" where
  "userBuckets [] = Inr (0, [])"
| "userBuckets (b # bs) =
     (case asMap b of
        None \<Rightarrow> userBuckets bs
      | Some bucket \<Rightarrow>
          (case asString (field bucket ''key'') of
             None \<Rightarrow> Inl (Panicked ''interface conversion: key is not string'')
           | Some username \<Rightarrow>
               (case asNumber (field bucket ''doc_count'') of
                  None \<Rightarrow> Inl (Panicked ''interface conversion: doc_count is not float64'')
                | Some docCount \<Rightarrow>
                    (case processUserBucket bucket username of
                       Inl f \<Rightarrow> Inl f
                     | Inr es \<Rightarrow>
                         (case userBuckets bs of
                            Inl f \<Rightarrow> Inl f
                          | Inr (hits, es') \<Rightarrow>
                              Inr (wrap64 (toInt64 docCount + hits), es @ es'))))))"

definition processAggregations :: "(string \<times> json) list \<Rightarrow> failure + (int \<times> AcceptEntry list)" where
  "processAggregations result =
     (case asMap (field result ''aggregations'') of
        None \<Rightarrow> Inl (Error ''no aggregations in response'')
      | Some aggs \<Rightarrow>
          (case asMap (field aggs ''unique_users'') of
             None \<Rightarrow> Inl (Error ''no unique_users aggregation'')
           | Some uniqueUsers \<Rightarrow>
               (case asArray (field uniqueUsers ''buckets'') of
                  None \<Rightarrow> Inl (Error ''no buckets in unique_users aggregation'')
                | Some buckets \<Rightarrow> userBuckets buckets)))"

section \<open>Merging the entries into the Result\<close>

text \<open>
  A Go map is modelled as an association list with distinct keys, \<^verbatim>\<open>m[k] = v\<close> as
  \<^const>\<open>AList.update\<close> and \<^verbatim>\<open>m[k]\<close> as \<^const>\<open>map_of\<close>.  A \<^verbatim>\<open>range\<close> loop over a
  map visits the pairs of the list in order; Go leaves that order unspecified.
  \<open>keys m\<close> is the set of keys of the map, \<open>getOr d m k\<close> the value stored under \<open>k\<close>,
  or \<open>d\<close> when there is none (the value a just created entry would have).
\<close>

definition keys :: "('k \<times> 'v) list \<Rightarrow> 'k set" where
  "keys m = fst ` set m"

definition getOr :: "'v \<Rightarrow> ('k \<times> 'v) list \<Rightarrow> 'k \<Rightarrow> 'v" where
  "getOr d m k = (case map_of m k of Some v \<Rightarrow> v | None \<Rightarrow> d)"

subsection \<open>The realm side: \<^verbatim>\<open>processResults\<close> of eduroam-accept\<close>

record UserStats =
  Providers :: "(string \<times> bool) list"

record ProviderStats =
  Users :: "(string \<times> bool) list"

text \<open>The struct \<^verbatim>\<open>Result\<close> of the realm side, with its maps \<^verbatim>\<open>Users\<close> and \<^verbatim>\<open>Providers\<close>.\<close>

record AcceptResult =
  Users_res :: "(string \<times> UserStats) list"
  Providers_res :: "(string \<times> ProviderStats) list"

definition emptyAcceptResult :: AcceptResult where
  "emptyAcceptResult = \<lparr>Users_res = [], Providers_res = []\<rparr>"

text \<open>The body of the first loop: \<^verbatim>\<open>userMap[entry.Username][entry.ServiceProvider] = true\<close>.\<close>

definition addToUserMap ::
  "(string \<times> (string \<times> bool) list) list \<Rightarrow> AcceptEntry \<Rightarrow> (string \<times> (string \<times> bool) list) list" where
  "addToUserMap userMap entry =
     AList.update (Username_a entry)
       (AList.update (ServiceProvider_a entry) True (getOr [] userMap (Username_a entry))) userMap"

text \<open>The body of the inner loop of the second phase, for one provider of one user.\<close>

definition addProvider :: "string \<Rightarrow> AcceptResult \<Rightarrow> string \<Rightarrow> AcceptResult" where
  "addProvider username result provider =
     \<lparr>Users_res =
        AList.update username
          \<lparr>Providers = AList.update provider True
                          (Providers (getOr \<lparr>Providers = []\<rparr> (Users_res result) username))\<rparr>
          (Users_res result),
      Providers_res =
        AList.update provider
          \<lparr>Users = AList.update username True
                      (Users (getOr \<lparr>Users = []\<rparr> (Providers_res result) provider))\<rparr>
          (Providers_res result)\<rparr>"

text \<open>The body of the outer loop: the user is created when absent, then its providers are added.\<close>

definition mergeUser :: "AcceptResult \<Rightarrow> string \<times> (string \<times> bool) list \<Rightarrow> AcceptResult" where
  "mergeUser result up =
     foldl (addProvider (fst up))
       (if map_of (Users_res result) (fst up) = None
        then result\<lparr>Users_res := AList.update (fst up) \<lparr>Providers = []\<rparr> (Users_res result)\<rparr>
        else result)
       (map fst (snd up))"

text \<open>
  \<^verbatim>\<open>processResults\<close>: \<open>entries\<close> is what the channel delivers until it is closed, and
  the result is the \<^verbatim>\<open>Result\<close> after the call.
\<close>

definition processResults :: "AcceptEntry list \<Rightarrow> AcceptResult \<Rightarrow> AcceptResult" where
  "processResults entries result = foldl mergeUser result (foldl addToUserMap [] entries)"

text \<open>The pairs of user and provider seen in the entries.\<close>

definition observed :: "AcceptEntry list \<Rightarrow> (string \<times> string) set" where
  "observed entries = (\<lambda>e. (Username_a e, ServiceProvider_a e)) ` set entries"

subsection \<open>Sorting\<close>

text \<open>
  \<^verbatim>\<open>sort.Slice(xs, less)\<close> as the insertion sort that the library runs on a slice of at
  most 12 elements: each element moves left past its left neighbours while \<open>lessFn\<close> puts
  it before them.  \<open>bubble\<close> takes the sorted prefix in reverse.  On a longer slice the
  library runs another algorithm, whose result is sorted as well but may order equal
  elements differently.
\<close>

fun bubble :: "('a \<Rightarrow> 'a \<Rightarrow> bool) \<Rightarrow> 'a \<Rightarrow> 'a list \<Rightarrow> 'a list" where
  "bubble lessFn x [] = [x]"
| "bubble lessFn x (y # ys) = (if lessFn x y then y # bubble lessFn x ys else x # y # ys)"

definition sortSlice :: "('a \<Rightarrow> 'a \<Rightarrow> bool) \<Rightarrow> 'a list \<Rightarrow> 'a list" where
  "sortSlice lessFn xs = rev (foldl (\<lambda>acc x. bubble lessFn x acc) [] xs)"

subsection \<open>The SP side: \<^verbatim>\<open>processResults\<close> of eduroam-sp\<close>

text \<open>The struct \<^verbatim>\<open>LogEntry\<close> of the SP-side program, here \<open>StationEntry\<close>.\<close>

record StationEntry =
  Username_e :: string
  Realm_e :: string
  ServiceProvider_e :: string
  StationID_e :: string
  Timestamp_e :: int

record UserActivity =
  Username_ua :: string
  Realm_ua :: string
  AuthTimestamps :: "int list"

record StationStats =
  StationID_st :: string
  TotalAuths_st :: int
  Users_st :: "(string \<times> UserActivity) list"

record RealmStats =
  Realm_rs :: string
  Users_rs :: "(string \<times> bool) list"
  Stations_rs :: "(string \<times> bool) list"
  TotalAuths_rs :: int

text \<open>The struct \<^verbatim>\<open>Result\<close> of the SP side.\<close>

record SPResult =
  Stations :: "(string \<times> StationStats) list"
  Realms :: "(string \<times> RealmStats) list"

definition emptySPResult :: SPResult where
  "emptySPResult = \<lparr>Stations = [], Realms = []\<rparr>"

text \<open>The body of the loop over the channel.\<close>

definition addStationEntry :: "SPResult \<Rightarrow> StationEntry \<Rightarrow> SPResult" where
  "addStationEntry result entry =
     (let station = getOr \<lparr>StationID_st = StationID_e entry, TotalAuths_st = 0, Users_st = []\<rparr>
                      (Stations result) (StationID_e entry);
          activity = getOr \<lparr>Username_ua = Username_e entry, Realm_ua = Realm_e entry,
                            AuthTimestamps = []\<rparr> (Users_st station) (Username_e entry);
          activity = activity\<lparr>AuthTimestamps := AuthTimestamps activity @ [Timestamp_e entry]\<rparr>;
          station = station\<lparr>Users_st := AList.update (Username_e entry) activity (Users_st station),
                            TotalAuths_st := TotalAuths_st station + 1\<rparr>;
          realm = getOr \<lparr>Realm_rs = Realm_e entry, Users_rs = [], Stations_rs = [],
                         TotalAuths_rs = 0\<rparr> (Realms result) (Realm_e entry);
          realm = realm\<lparr>Users_rs := AList.update (Username_e entry) True (Users_rs realm),
                        Stations_rs := AList.update (StationID_e entry) True (Stations_rs realm),
                        TotalAuths_rs := TotalAuths_rs realm + 1\<rparr>
      in \<lparr>Stations = AList.update (StationID_e entry) station (Stations result),
          Realms = AList.update (Realm_e entry) realm (Realms result)\<rparr>)"

text \<open>The final loops: the timestamps of every activity are sorted.\<close>

definition sortActivity :: "string \<times> UserActivity \<Rightarrow> string \<times> UserActivity" where
  "sortActivity ua =
     (fst ua, (snd ua)\<lparr>AuthTimestamps := sortSlice (\<lambda>a b. a < b) (AuthTimestamps (snd ua))\<rparr>)"

definition sortStation :: "string \<times> StationStats \<Rightarrow> string \<times> StationStats" where
  "sortStation st = (fst st, (snd st)\<lparr>Users_st := map sortActivity (Users_st (snd st))\<rparr>)"

definition processResultsSP :: "StationEntry list \<Rightarrow> SPResult \<Rightarrow> SPResult" where
  "processResultsSP entries result =
     (let result = foldl addStationEntry result entries
      in result\<lparr>Stations := map sortStation (Stations result)\<rparr>)"

text \<open>
  The pairs of user and provider that a realm-side Result holds, read from its map of
  users and from its map of providers, and the pairs that the user map of the first phase
  holds.
\<close>

definition userPairs :: "AcceptResult \<Rightarrow> (string \<times> string) set" where
  "userPairs r = {(u, p). \<exists>us. map_of (Users_res r) u = Some us \<and> p \<in> keys (Providers us)}"

definition providerPairs :: "AcceptResult \<Rightarrow> (string \<times> string) set" where
  "providerPairs r = {(u, p). \<exists>ps. map_of (Providers_res r) p = Some ps \<and> u \<in> keys (Users ps)}"

definition mapPairs :: "(string \<times> (string \<times> bool) list) list \<Rightarrow> (string \<times> string) set" where
  "mapPairs um = {(u, p). \<exists>m. map_of um u = Some m \<and> p \<in> keys m}"

text \<open>The invariant of the SP-side merge: the stations of every realm are stations of the Result.\<close>

definition realmStationsKnown :: "SPResult \<Rightarrow> bool" where
  "realmStationsKnown r =
     (\<forall>rl rs. map_of (Realms r) rl = Some rs \<longrightarrow> keys (Stations_rs rs) \<subseteq> keys (Stations r))"

section \<open>The output arrays (\<^verbatim>\<open>createOutputData\<close>)\<close>

text \<open>
  The output structs of the realm side.  Of \<^verbatim>\<open>query_info\<close> the domain and the days are
  kept; the formatted dates and the fixed description do not depend on the Result and are
  left out.  A \<^verbatim>\<open>range\<close> over a map of the Result visits its association list in order.
\<close>

record ProviderStat =
  Provider :: string
  UserCount :: nat
  Users_o :: "string list"

record UserStat =
  Username_o :: string
  Providers_o :: "string list"

record AcceptOutput =
  Domain :: string
  Days_o :: int
  TotalUsers :: nat
  TotalProviders :: nat
  ProviderStats_o :: "ProviderStat list"
  UserStats_o :: "UserStat list"

definition providerStat :: "string \<times> ProviderStats \<Rightarrow> ProviderStat" where
  "providerStat ps =
     \<lparr>Provider = fst ps, UserCount = length (map fst (Users (snd ps))),
      Users_o = map fst (Users (snd ps))\<rparr>"

definition userStat :: "string \<times> UserStats \<Rightarrow> UserStat" where
  "userStat us = \<lparr>Username_o = fst us, Providers_o = map fst (Providers (snd us))\<rparr>"

definition createOutputData :: "AcceptResult \<Rightarrow> string \<Rightarrow> int \<Rightarrow> AcceptOutput" where
  "createOutputData result domain days =
     \<lparr>Domain = domain, Days_o = days,
      TotalUsers = length (Users_res result),
      TotalProviders = length (Providers_res result),
      ProviderStats_o =
        sortSlice (\<lambda>a b. UserCount a > UserCount b) (map providerStat (Providers_res result)),
      UserStats_o =
        sortSlice (\<lambda>a b. Username_o a < Username_o b) (map userStat (Users_res result))\<rparr>"

text \<open>
  The output structs of the SP side.  The pattern analysis of a station
  (\<^verbatim>\<open>usage_patterns\<close>, \<^verbatim>\<open>session_analysis\<close>, \<^verbatim>\<open>potential_issues\<close>) takes no part in
  the order of the arrays and is left out; timestamps stay Unix seconds.
\<close>

record UserDetail =
  Username_d :: string
  Realm_d :: string
  AuthTimestamps_d :: "int list"

record StationStatsOutput =
  StationID_o :: string
  TotalAuths_o :: int
  TotalUsers_o :: nat
  UserDetails :: "UserDetail list"

record RealmStat =
  Realm_o :: string
  TotalUsers_ro :: nat
  TotalStations :: nat
  TotalAuths_ro :: int

record SPOutput =
  ServiceProvider_o :: string
  Days_so :: int
  UniqueStations :: nat
  UniqueUsers :: nat
  UniqueRealms :: nat
  TotalAuths_sum :: int
  StationStats_o :: "StationStatsOutput list"
  RealmStats_o :: "RealmStat list"

definition userDetail :: "string \<times> UserActivity \<Rightarrow> UserDetail" where
  "userDetail ua =
     \<lparr>Username_d = fst ua, Realm_d = Realm_ua (snd ua),
      AuthTimestamps_d = AuthTimestamps (snd ua)\<rparr>"

definition stationStat :: "string \<times> StationStats \<Rightarrow> StationStatsOutput" where
  "stationStat st =
     \<lparr>StationID_o = fst st, TotalAuths_o = TotalAuths_st (snd st),
      TotalUsers_o = length (Users_st (snd st)),
      UserDetails =
        sortSlice (\<lambda>a b. Username_d a < Username_d b) (map userDetail (Users_st (snd st)))\<rparr>"

definition realmStat :: "string \<times> RealmStats \<Rightarrow> RealmStat" where
  "realmStat rs =
     \<lparr>Realm_o = fst rs, TotalUsers_ro = length (Users_rs (snd rs)),
      TotalStations = length (Stations_rs (snd rs)), TotalAuths_ro = TotalAuths_rs (snd rs)\<rparr>"

definition createOutputDataSP :: "SPResult \<Rightarrow> string \<Rightarrow> int \<Rightarrow> SPOutput" where
  "createOutputDataSP result serviceProvider days =
     \<lparr>ServiceProvider_o = serviceProvider, Days_so = days,
      UniqueStations = length (Stations result),
      UniqueUsers = length (remdups (concat (map (\<lambda>st. map fst (Users_st (snd st))) (Stations result)))),
      UniqueRealms = length (Realms result),
      TotalAuths_sum = sum_list (map (\<lambda>st. TotalAuths_st (snd st)) (Stations result)),
      StationStats_o =
        sortSlice (\<lambda>a b. TotalAuths_o a > TotalAuths_o b) (map stationStat (Stations result)),
      RealmStats_o =
        sortSlice (\<lambda>a b. TotalAuths_ro a > TotalAuths_ro b) (map realmStat (Realms result))\<rparr>"

text \<open>
  The days-active of a user, by which the specification orders the users of the realm
  query and which the program counted up to its version 2.1: the number of days, counted
  in spans of 86400 seconds from the epoch, on which the entries show the user.  The
  \<^verbatim>\<open>Result\<close> of version 2.2.0 keeps no such value.
\<close>

definition daysActive :: "AcceptEntry list \<Rightarrow> string \<Rightarrow> nat" where
  "daysActive entries u =
     length (remdups (map (\<lambda>e. Timestamp_a e div 86400) (filter (\<lambda>e. Username_a e = u) entries)))"

text \<open>
  An instant \<open>t\<close>, in nanoseconds, lies in the requested range when it is in the
  half-open interval from \<^verbatim>\<open>startDate\<close> to \<^verbatim>\<open>endDate\<close>, and is covered when the second
  it falls in belongs to a Job.
\<close>

definition requested :: "Plan \<Rightarrow> int \<Rightarrow> bool" where
  "requested p t = (nsec (StartDate p) \<le> t \<and> t < nsec (EndDate p))"

definition covered :: "Plan \<Rightarrow> int \<Rightarrow> bool" where
  "covered p t = (t div 1000000000 \<in> \<Union> (span ` set (Jobs p)))"

section \<open>Theorems\<close>

lemma showNat_413: "showNat 413 = ''413''"
  by code_simp

lemma send_limit_large:
  "length b > limit \<Longrightarrow>
   sendToQuickwit (limitServer limit) b = Some ''error response: Status 413, Body: Payload Too Large''"
  by (simp add: sendToQuickwit_def limitServer_def showNat_413)

lemma send_limit_small:
  "length b \<le> limit \<Longrightarrow> sendToQuickwit (limitServer limit) b = None"
  by (simp add: sendToQuickwit_def limitServer_def)

lemma contains_413: "Contains ''error response: Status 413, Body: Payload Too Large'' ''413''"
  by code_simp

text \<open>
  C1 (the code at the scenario's input).  A batch of 40 entries, \<^verbatim>\<open>maxRetries = 3\<close>, a
  server that accepts at most 10 entries per body: the attempts post 40, 20 and 10 entries,
  the third is accepted, and the function returns \<^verbatim>\<open>nil\<close> having delivered the first 10
  entries only.  Entries 10 to 39 were never accepted by the server, and no error is
  returned for them.
\<close>

theorem sendToQuickwitWithRetry_delivers_first_quarter:
  "sendToQuickwitWithRetry (limitServer 10) [0..<40] 3 = Inr [0..<10]"
  by code_simp

subsection \<open>The Jobs of a date range\<close>

lemma div_ns:
  "0 \<le> ns \<Longrightarrow> ns < 1000000000 \<Longrightarrow> (a * 1000000000 + ns) div 1000000000 = (a::int)"
  by (simp add: div_pos_pos_trivial)

lemma enqueueJobs_nil: "nsec e \<le> nsec c \<Longrightarrow> enqueueJobs c e = []"
  by (subst enqueueJobs.simps) (simp add: Before_def)

lemma enqueue_last:
  assumes "0 \<le> r" "r < 86400"
  shows "enqueueJobs \<lparr>nsec = S * 1000000000, loc = l\<rparr>
               \<lparr>nsec = (S + r) * 1000000000 + 999999999, loc = l'\<rparr> =
         [\<lparr>StartTimestamp = S, EndTimestamp = S + r\<rparr>]"
proof -
  have u: "((S + r) * 1000000000 + 999999999) div 1000000000 = S + r"
    by (rule div_ns) simp_all
  have r: "r * 1000000000 \<le> 86399 * 1000000000" using assms by simp
  show ?thesis
    using assms r
    by (subst enqueueJobs.simps)
       (simp add: Before_def After_def Add_def Hour_def Unix_def Let_def enqueueJobs_nil u
          algebra_simps)
qed

lemma enqueue_step:
  assumes "0 \<le> r"
  shows "enqueueJobs \<lparr>nsec = S * 1000000000, loc = l\<rparr>
               \<lparr>nsec = (S + 86400 + int n * 86400 + r) * 1000000000 + 999999999, loc = l'\<rparr>
     = \<lparr>StartTimestamp = S, EndTimestamp = S + 86400\<rparr> #
       enqueueJobs \<lparr>nsec = (S + 86400) * 1000000000, loc = l\<rparr>
               \<lparr>nsec = (S + 86400 + int n * 86400 + r) * 1000000000 + 999999999, loc = l'\<rparr>"
proof -
  have "0 \<le> (int n * 86400 + r) * 1000000000" using assms by simp
  then show ?thesis
    by (subst enqueueJobs.simps)
       (simp add: Before_def After_def Add_def Hour_def Unix_def Let_def algebra_simps)
qed

lemma enqueue_closed:
  assumes "0 \<le> r" "r < 86400"
  shows "enqueueJobs \<lparr>nsec = S * 1000000000, loc = l\<rparr>
               \<lparr>nsec = (S + int n * 86400 + r) * 1000000000 + 999999999, loc = l'\<rparr> =
         dayJobs S n r"
  unfolding dayJobs_def
proof (induction n arbitrary: S)
  case 0
  show ?case using enqueue_last[OF assms] by simp
next
  case (Suc n)
  have m: "map (\<lambda>k. \<lparr>StartTimestamp = S + int k * 86400, EndTimestamp = S + (int k + 1) * 86400\<rparr>) [0..<Suc n]
     = \<lparr>StartTimestamp = S, EndTimestamp = S + 86400\<rparr> #
       map (\<lambda>k. \<lparr>StartTimestamp = (S + 86400) + int k * 86400, EndTimestamp = (S + 86400) + (int k + 1) * 86400\<rparr>) [0..<n]"
    by (simp add: upt_conv_Cons map_Suc_upt[symmetric] algebra_simps del: upt_Suc)
  have s: "(S + int (Suc n) * 86400 + r) = (S + 86400) + int n * 86400 + r" by simp
  have t: "S + int (Suc n) * 86400 = (S + 86400) + int n * 86400" by simp
  show ?case
    unfolding s t m enqueue_step[OF assms(1)] Suc by simp
qed

lemma enqueue_between:
  "enqueueJobs \<lparr>nsec = S * 1000000000, loc = l\<rparr> \<lparr>nsec = E * 1000000000 + 999999999, loc = l'\<rparr> =
   jobsBetween S E"
proof (cases "S \<le> E")
  case True
  define n where "n = nat ((E - S) div 86400)"
  define r where "r = (E - S) mod 86400"
  have r: "0 \<le> r" "r < 86400" by (simp_all add: r_def)
  have "0 \<le> (E - S) div 86400" using True by (simp add: pos_imp_zdiv_nonneg_iff)
  then have n: "int n = (E - S) div 86400" by (simp add: n_def)
  have "E - S = int n * 86400 + r" unfolding n r_def by simp
  then have E: "E = S + int n * 86400 + r" by simp
  show ?thesis
    using True enqueue_closed[OF r, of S l n l']
    by (simp add: jobsBetween_def n_def[symmetric] r_def[symmetric] E[symmetric])
next
  case False
  then have "E + 1 \<le> S" by simp
  then have "(E + 1) * 1000000000 \<le> S * 1000000000" by (rule mult_right_mono) simp
  then have "E * 1000000000 + 999999999 \<le> S * 1000000000" by simp
  with False show ?thesis by (simp add: jobsBetween_def enqueueJobs_nil)
qed

lemma length_dayJobs: "length (dayJobs S n r) = Suc n"
  by (simp add: dayJobs_def)

lemma width_dayJobs: "map width (dayJobs S n r) = replicate n 86400 @ [r]"
  by (simp add: dayJobs_def width_def map_replicate_const comp_def)

lemma nth_dayJobs:
  "i \<le> n \<Longrightarrow> dayJobs S n r ! i =
     \<lparr>StartTimestamp = S + int i * 86400,
      EndTimestamp = (if i < n then S + (int i + 1) * 86400 else S + int n * 86400 + r)\<rparr>"
  by (auto simp: dayJobs_def nth_append)

lemma dayJobs_disjoint:
  assumes "i < length (dayJobs S n r)" "k < length (dayJobs S n r)" "i \<noteq> k"
  shows "span (dayJobs S n r ! i) \<inter> span (dayJobs S n r ! k) = {}"
proof -
  have ik: "i \<le> n" "k \<le> n" using assms by (simp_all add: length_dayJobs)
  { fix a b :: nat assume ab: "a < b" "b \<le> n"
    then have "int a + 1 \<le> int b" by simp
    then have "(int a + 1) * 86400 \<le> int b * 86400" by (rule mult_right_mono) simp
    with ab have "span (dayJobs S n r ! a) \<inter> span (dayJobs S n r ! b) = {}"
      by (auto simp: nth_dayJobs span_def) }
  note lt = this
  from \<open>i \<noteq> k\<close> consider "i < k" | "k < i" by linarith
  then show ?thesis
  proof cases
    case 1
    then show ?thesis using lt[of i k] ik by simp
  next
    case 2
    then show ?thesis using lt[of k i] ik by (simp add: Int_commute)
  qed
qed

lemma dayJobs_union:
  assumes "0 \<le> r" "r \<le> 86400"
  shows "(\<Union>j \<in> set (dayJobs S n r). span j) = {S ..< S + int n * 86400 + r}"
proof (rule set_eqI, rule iffI)
  fix x assume "x \<in> (\<Union>j \<in> set (dayJobs S n r). span j)"
  then obtain i where i: "i < length (dayJobs S n r)" "x \<in> span (dayJobs S n r ! i)"
    by (auto simp: set_conv_nth)
  then have le: "i \<le> n" by (simp add: length_dayJobs)
  then have "int i * 86400 \<le> int n * 86400" by simp
  moreover have "i < n \<Longrightarrow> (int i + 1) * 86400 \<le> int n * 86400"
    by (rule mult_right_mono) simp_all
  ultimately show "x \<in> {S ..< S + int n * 86400 + r}"
    using i(2) le assms by (auto simp: nth_dayJobs span_def split: if_splits)
next
  fix x assume x: "x \<in> {S ..< S + int n * 86400 + r}"
  define q where "q = (x - S) div 86400"
  have q0: "0 \<le> q" using x by (simp add: q_def pos_imp_zdiv_nonneg_iff)
  have "x - S = q * 86400 + (x - S) mod 86400"
    by (simp add: q_def)
  moreover have "0 \<le> (x - S) mod 86400" "(x - S) mod 86400 < 86400"
    by simp_all
  ultimately have qb: "q * 86400 \<le> x - S" "x - S < q * 86400 + 86400"
    by linarith+
  have qn: "q \<le> int n"
  proof (rule ccontr)
    assume "\<not> q \<le> int n"
    then have "int n + 1 \<le> q" by simp
    then have "(int n + 1) * 86400 \<le> q * 86400" by (rule mult_right_mono) simp
    with qb x assms show False by (simp add: algebra_simps)
  qed
  define i where "i = nat q"
  have iq: "int i = q" using q0 by (simp add: i_def)
  have le: "i \<le> n" using qn iq by linarith
  have "x \<in> span (dayJobs S n r ! i)"
    using qb x le iq by (auto simp: nth_dayJobs span_def algebra_simps)
  moreover have "dayJobs S n r ! i \<in> set (dayJobs S n r)"
    using le by (simp add: length_dayJobs)
  ultimately show "x \<in> (\<Union>j \<in> set (dayJobs S n r). span j)" by blast
qed

lemma jobsBetween_union: "(\<Union>j \<in> set (jobsBetween S E). span j) = {S ..< E}"
proof (cases "S \<le> E")
  case True
  have "0 \<le> (E - S) div 86400" using True by (simp add: pos_imp_zdiv_nonneg_iff)
  then have "int (nat ((E - S) div 86400)) * 86400 + (E - S) mod 86400 = E - S"
    by simp
  then have "S + int (nat ((E - S) div 86400)) * 86400 + (E - S) mod 86400 = E" by linarith
  moreover have "0 \<le> (E - S) mod 86400" "(E - S) mod 86400 \<le> 86400"
    by (simp_all add: less_imp_le)
  ultimately show ?thesis
    using True dayJobs_union[of "(E - S) mod 86400" S "nat ((E - S) div 86400)"]
    by (simp add: jobsBetween_def)
next
  case False
  then show ?thesis by (simp add: jobsBetween_def)
qed

lemma jobsBetween_disjoint:
  assumes "i < length (jobsBetween S E)" "k < length (jobsBetween S E)" "i \<noteq> k"
  shows "span (jobsBetween S E ! i) \<inter> span (jobsBetween S E ! k) = {}"
  using assms by (auto simp: jobsBetween_def dayJobs_disjoint split: if_splits)

subsection \<open>Aligned dates\<close>

lemma fromWall_shape:
  "\<exists>u. fromWall l w ns = \<lparr>nsec = u * 1000000000 + ns, loc = l\<rparr>"
proof -
  obtain off a b where z: "lookupZone l w = (off, a, b)" by (cases "lookupZone l w") auto
  define off' where
    "off' = (if off \<noteq> 0 \<and> outside (w - off) a b then fst (lookupZone l (w - off)) else off)"
  have "fromWall l w ns = \<lparr>nsec = (w - off') * 1000000000 + ns, loc = l\<rparr>"
    by (simp add: fromWall_def z off'_def Let_def)
  then show ?thesis by blast
qed

lemma startOfDay_shape: "startOfDay t = \<lparr>nsec = Unix (startOfDay t) * 1000000000, loc = loc t\<rparr>"
proof -
  obtain u where u: "startOfDay t = \<lparr>nsec = u * 1000000000 + 0, loc = loc t\<rparr>"
    unfolding startOfDay_def using fromWall_shape by blast
  then have "Unix (startOfDay t) = u" by (simp add: Unix_def)
  with u show ?thesis by simp
qed

lemma endOfDay_shape:
  "endOfDay t = \<lparr>nsec = Unix (endOfDay t) * 1000000000 + 999999999, loc = loc t\<rparr>"
proof -
  obtain u where u: "endOfDay t = \<lparr>nsec = u * 1000000000 + 999999999, loc = loc t\<rparr>"
    unfolding endOfDay_def using fromWall_shape by blast
  have "(u * 1000000000 + 999999999) div 1000000000 = u" by (rule div_ns) simp_all
  then have "Unix (endOfDay t) = u" by (simp add: Unix_def u)
  with u show ?thesis by simp
qed

lemma aligned_jobs:
  "enqueueJobs (startOfDay s) (endOfDay e) = jobsBetween (Unix (startOfDay s)) (Unix (endOfDay e))"
  by (subst startOfDay_shape, subst endOfDay_shape) (rule enqueue_between)

lemma enqueue_Run:
  "enqueue r = Run p \<Longrightarrow>
   \<exists>d s e b. r = Inr (d, s, e, b) \<and> StartDate p = startOfDay s \<and> EndDate p = endOfDay e \<and>
              Jobs p = enqueueJobs (startOfDay s) (endOfDay e)"
  by (auto simp: enqueue_def Let_def split: sum.splits if_splits)

lemma run_plan:
  assumes "realmMain args now = Run p \<or> spMain args now = Run p"
  shows "Jobs p = jobsBetween (Unix (StartDate p)) (Unix (EndDate p))"
proof -
  from assms have "enqueue (realmRange args now) = Run p \<or> enqueue (spRange args now) = Run p"
    by (auto simp: realmMain_def spMain_def split: if_splits)
  then obtain s e where "StartDate p = startOfDay s" "EndDate p = endOfDay e"
     "Jobs p = enqueueJobs (startOfDay s) (endOfDay e)"
    by (blast dest: enqueue_Run)
  then show ?thesis by (simp add: aligned_jobs)
qed

text \<open>
  Whatever the arguments, the clock and the location, when a driver (realm side or SP side)
  reaches its job loop, two different Jobs cover no second in common, and together the Jobs
  cover exactly the seconds from \<^verbatim>\<open>startDate.Unix()\<close> up to, not including,
  \<^verbatim>\<open>endDate.Unix()\<close>.
\<close>

lemma jobs_cover_whole_seconds:
  assumes "realmMain args now = Run p \<or> spMain args now = Run p"
  shows "(\<forall>i < length (Jobs p). \<forall>k < length (Jobs p).
             i \<noteq> k \<longrightarrow> span (Jobs p ! i) \<inter> span (Jobs p ! k) = {}) \<and>
         (\<Union>j \<in> set (Jobs p). span j) = {Unix (StartDate p) ..< Unix (EndDate p)}"
  unfolding run_plan[OF assms] using jobsBetween_disjoint jobsBetween_union by blast

subsection \<open>Locations of one offset\<close>

lemma lookupZone_FixedZone [simp]: "lookupZone (FixedZone z) s = (z, None, None)"
  by (simp add: lookupZone_def FixedZone_def)

lemma fromWall_FixedZone [simp]:
  "fromWall (FixedZone z) w ns = \<lparr>nsec = (w - z) * 1000000000 + ns, loc = FixedZone z\<rparr>"
  by (simp add: fromWall_def outside_def)

lemma wall_FixedZone [simp]: "wall \<lparr>nsec = t, loc = FixedZone z\<rparr> = t div 1000000000 + z"
  by (simp add: wall_def Unix_def)

lemma startOfDay_FixedZone:
  "startOfDay \<lparr>nsec = t, loc = FixedZone z\<rparr> =
   \<lparr>nsec = ((t div 1000000000 + z) div 86400 * 86400 - z) * 1000000000, loc = FixedZone z\<rparr>"
  by (simp add: startOfDay_def localDay_def)

lemma endOfDay_FixedZone:
  "endOfDay \<lparr>nsec = t, loc = FixedZone z\<rparr> =
   \<lparr>nsec = ((t div 1000000000 + z) div 86400 * 86400 + 86399 - z) * 1000000000 + 999999999,
    loc = FixedZone z\<rparr>"
  by (simp add: endOfDay_def localDay_def)

lemma AddDays_FixedZone:
  "AddDays \<lparr>nsec = t, loc = FixedZone z\<rparr> n = \<lparr>nsec = t + n * 86400 * 1000000000, loc = FixedZone z\<rparr>"
proof -
  have "t = t div 1000000000 * 1000000000 + t mod 1000000000" by simp
  then show ?thesis
    by (simp add: AddDays_def algebra_simps)
qed

subsection \<open>The driver arguments \<^verbatim>\<open>2\<close>, \<^verbatim>\<open>y2024\<close>, \<^verbatim>\<open>0\<close> and \<^verbatim>\<open>-5\<close>\<close>

lemma realmMain_two_days:
  "realmMain [''eduroam-accept'', ''ku.ac.th'', ''2'']
     \<lparr>nsec = 1730000000123456789, loc = FixedZone 25200\<rparr> =
   Run \<lparr>Days = 2, StartDate = \<lparr>nsec = 1729875600000000000, loc = FixedZone 25200\<rparr>,
        EndDate = \<lparr>nsec = 1730048399999999999, loc = FixedZone 25200\<rparr>,
        SpecificDate = False,
        Jobs = [\<lparr>StartTimestamp = 1729875600, EndTimestamp = 1729962000\<rparr>,
                \<lparr>StartTimestamp = 1729962000, EndTimestamp = 1730048399\<rparr>]\<rparr>"
  by code_simp

text \<open>
  C3 (the code at the arguments \<^verbatim>\<open>ku.ac.th 2\<close>).  The realm-side driver is run at
  2024-10-27 10:33:20.123456789 in a location seven hours east of UTC.  It sends two Jobs,
  from 1729875600 (2024-10-26 00:00:00 +07:00) to 1729962000 and from there to 1730048399.
  \<^verbatim>\<open>endDate\<close> is 23:59:59.999999999 of 2024-10-27, and the last Job ends at
  \<^verbatim>\<open>endDate.Unix()\<close>, the second 1730048399, which a half-open Job does not contain:
  the instant 1730048399.000000000 lies between \<^verbatim>\<open>startDate\<close> and \<^verbatim>\<open>endDate\<close>, and no
  Job covers it.  By \<open>jobs_cover_whole_seconds\<close> the last second of the range is missed
  like this in every run of either driver that sends a Job.
\<close>

theorem jobs_miss_last_second:
  "(case realmMain [''eduroam-accept'', ''ku.ac.th'', ''2'']
           \<lparr>nsec = 1730000000123456789, loc = FixedZone 25200\<rparr> of
      Run p \<Rightarrow>
        Jobs p = [\<lparr>StartTimestamp = 1729875600, EndTimestamp = 1729962000\<rparr>,
                  \<lparr>StartTimestamp = 1729962000, EndTimestamp = 1730048399\<rparr>] \<and>
        nsec (EndDate p) = 1730048399999999999 \<and>
        requested p 1730048399000000000 \<and> \<not> covered p 1730048399000000000
    | _ \<Rightarrow> False)"
  by (simp add: realmMain_two_days requested_def covered_def span_def)

text \<open>
  In a location whose offset changes within the range, the dates are aligned with the
  offset in force on each of them, and the Jobs are cut every 86400 seconds from the first
  midnight.  The realm-side driver is run for three days at 2024-03-11 12:00:00.123456789
  in America/New_York: the Jobs start at 1709960400, the midnight of 9 March five hours
  west of UTC, and the last Job, which ends with 11 March four hours west of UTC, is 82799
  seconds wide.
\<close>

lemma realmMain_three_days_NewYork:
  "realmMain [''eduroam-accept'', ''ku.ac.th'', ''3''] \<lparr>nsec = 1710172800123456789, loc = NewYork\<rparr> =
   Run \<lparr>Days = 3, StartDate = \<lparr>nsec = 1709960400000000000, loc = NewYork\<rparr>,
        EndDate = \<lparr>nsec = 1710215999999999999, loc = NewYork\<rparr>,
        SpecificDate = False,
        Jobs = [\<lparr>StartTimestamp = 1709960400, EndTimestamp = 1710046800\<rparr>,
                \<lparr>StartTimestamp = 1710046800, EndTimestamp = 1710133200\<rparr>,
                \<lparr>StartTimestamp = 1710133200, EndTimestamp = 1710215999\<rparr>]\<rparr>"
  by code_simp

lemma Atoi_2024: "Atoi ''2024'' = Some 2024"
  by code_simp

lemma spRange_y2024:
  "spRange [prog, sp, ''y2024''] \<lparr>nsec = t, loc = l\<rparr> =
     Inr (366, Date 2024 1 1 0 0 0 0 l, Date 2024 12 31 23 59 59 999999999 l, False)"
  by (simp add: spRange_def HasPrefix_def Atoi_2024 isLeapYear_def)

lemma spMain_y2024:
  "spMain [prog, sp, ''y2024''] \<lparr>nsec = t, loc = l\<rparr> =
     Run \<lparr>Days = 366,
          StartDate = startOfDay (Date 2024 1 1 0 0 0 0 l),
          EndDate = endOfDay (Date 2024 12 31 23 59 59 999999999 l),
          SpecificDate = False,
          Jobs = jobsBetween (Unix (startOfDay (Date 2024 1 1 0 0 0 0 l)))
                             (Unix (endOfDay (Date 2024 12 31 23 59 59 999999999 l)))\<rparr>"
  by (simp add: spMain_def spRange_y2024 enqueue_def Let_def aligned_jobs)

lemma y2024_FixedZone:
  "startOfDay (Date 2024 1 1 0 0 0 0 (FixedZone z)) =
     \<lparr>nsec = (1704067200 - z) * 1000000000, loc = FixedZone z\<rparr>"
  "endOfDay (Date 2024 12 31 23 59 59 999999999 (FixedZone z)) =
     \<lparr>nsec = (1735689599 - z) * 1000000000 + 999999999, loc = FixedZone z\<rparr>"
proof -
  have u: "((1735689599 - z) * 1000000000 + 999999999) div 1000000000 = 1735689599 - z"
    by (rule div_ns) simp_all
  show "startOfDay (Date 2024 1 1 0 0 0 0 (FixedZone z)) =
     \<lparr>nsec = (1704067200 - z) * 1000000000, loc = FixedZone z\<rparr>"
    by (simp add: Date_def daysFromCivil_def startOfDay_FixedZone)
  have "Date 2024 12 31 23 59 59 999999999 (FixedZone z) =
      \<lparr>nsec = (1735689599 - z) * 1000000000 + 999999999, loc = FixedZone z\<rparr>"
    by (simp add: Date_def daysFromCivil_def)
  then show "endOfDay (Date 2024 12 31 23 59 59 999999999 (FixedZone z)) =
     \<lparr>nsec = (1735689599 - z) * 1000000000 + 999999999, loc = FixedZone z\<rparr>"
    by (simp add: endOfDay_FixedZone u)
qed

lemma jobsBetween_y2024: "jobsBetween (1704067200 - z) (1735689599 - z) = dayJobs (1704067200 - z) 365 86399"
  by (simp add: jobsBetween_def)

lemma spMain_y2024_FixedZone:
  "spMain [prog, sp, ''y2024''] \<lparr>nsec = t, loc = FixedZone z\<rparr> =
     Run \<lparr>Days = 366,
          StartDate = \<lparr>nsec = (1704067200 - z) * 1000000000, loc = FixedZone z\<rparr>,
          EndDate = \<lparr>nsec = (1735689599 - z) * 1000000000 + 999999999, loc = FixedZone z\<rparr>,
          SpecificDate = False,
          Jobs = dayJobs (1704067200 - z) 365 86399\<rparr>"
proof -
  have u: "((1735689599 - z) * 1000000000 + 999999999) div 1000000000 = 1735689599 - z"
    by (rule div_ns) simp_all
  have U1: "Unix \<lparr>nsec = (1704067200 - z) * 1000000000, loc = FixedZone z\<rparr> = 1704067200 - z"
    by (simp add: Unix_def)
  have U2: "Unix \<lparr>nsec = (1735689599 - z) * 1000000000 + 999999999, loc = FixedZone z\<rparr>
              = 1735689599 - z"
    using u by (simp add: Unix_def)
  show ?thesis
    by (simp only: spMain_y2024 y2024_FixedZone U1 U2 jobsBetween_y2024)
qed

text \<open>
  C8 (the code at the argument \<^verbatim>\<open>y2024\<close>).  In a location of one offset, \<open>z\<close> seconds
  east of UTC (\<open>z = 0\<close> is UTC), whatever the clock, the SP-side driver sends 366 Jobs.
  The first 365 are 86400 seconds wide; the last is 86399 seconds wide, because the loop
  clamps it to \<^verbatim>\<open>endDate\<close>, 23:59:59.999999999 on 31 December, of which the Job keeps
  the Unix second.  Together the Jobs cover the seconds from 2024-01-01 00:00:00 up to,
  not including, 2024-12-31 23:59:59 of that location; in UTC these are 1704067200 and
  1735689599.
\<close>

theorem spMain_y2024_jobs:
  "spMain [prog, sp, ''y2024''] \<lparr>nsec = t, loc = FixedZone z\<rparr> =
     Run \<lparr>Days = 366,
          StartDate = \<lparr>nsec = (1704067200 - z) * 1000000000, loc = FixedZone z\<rparr>,
          EndDate = \<lparr>nsec = (1735689599 - z) * 1000000000 + 999999999, loc = FixedZone z\<rparr>,
          SpecificDate = False,
          Jobs = dayJobs (1704067200 - z) 365 86399\<rparr> \<and>
   length (dayJobs (1704067200 - z) 365 86399) = 366 \<and>
   map width (dayJobs (1704067200 - z) 365 86399) = replicate 365 86400 @ [86399] \<and>
   (\<Union> (span ` set (dayJobs (1704067200 - z) 365 86399))) = {1704067200 - z ..< 1735689599 - z}"
proof -
  have "map width (dayJobs (1704067200 - z) 365 86399) = replicate 365 86400 @ [86399]"
    by (rule width_dayJobs)
  moreover have "(\<Union> (span ` set (dayJobs (1704067200 - z) 365 86399))) = {1704067200 - z ..< 1735689599 - z}"
    using dayJobs_union[of 86399 "1704067200 - z" 365] by simp
  ultimately show ?thesis
    by (simp add: spMain_y2024_FixedZone length_dayJobs)
qed

text \<open>
  In a location whose offset changes during the year the Jobs are cut every 86400
  seconds from the first midnight all the same, so that their number and the width of the
  last one change with the location.  In Asia/Almaty, which went from six to five hours
  east of UTC on 2024-03-01, the driver sends 367 Jobs, the last 3599 seconds wide.
\<close>

lemma y2024_Almaty:
  "startOfDay (Date 2024 1 1 0 0 0 0 Almaty) = \<lparr>nsec = 1704045600000000000, loc = Almaty\<rparr>"
  "endOfDay (Date 2024 12 31 23 59 59 999999999 Almaty) = \<lparr>nsec = 1735671599999999999, loc = Almaty\<rparr>"
  by code_simp+

lemma spMain_y2024_Almaty:
  "spMain [prog, sp, ''y2024''] \<lparr>nsec = t, loc = Almaty\<rparr> =
     Run \<lparr>Days = 366,
          StartDate = \<lparr>nsec = 1704045600000000000, loc = Almaty\<rparr>,
          EndDate = \<lparr>nsec = 1735671599999999999, loc = Almaty\<rparr>,
          SpecificDate = False,
          Jobs = dayJobs 1704045600 366 3599\<rparr>"
  unfolding spMain_y2024 y2024_Almaty
  by (simp add: Unix_def jobsBetween_def)

lemma spMain_y2024_Almaty_jobs:
  "length (jobsOf (spMain [prog, sp, ''y2024''] \<lparr>nsec = t, loc = Almaty\<rparr>)) = 367 \<and>
   map width (jobsOf (spMain [prog, sp, ''y2024''] \<lparr>nsec = t, loc = Almaty\<rparr>)) =
     replicate 366 86400 @ [3599]"
  by (simp add: spMain_y2024_Almaty length_dayJobs width_dayJobs)

lemma Atoi_0: "Atoi ''0'' = Some 0"
  by code_simp

lemma Atoi_m5: "Atoi ''-5'' = Some (- 5)"
  by code_simp

text \<open>
  C9 (the code at two arguments outside [1, 366]).  The realm-side driver tests only
  \<^verbatim>\<open>d <= 366\<close>.  Whatever the clock and the location, the argument \<^verbatim>\<open>0\<close> is accepted
  as \<^verbatim>\<open>days = 0\<close>: the start date is the day after the end date, and the run goes on to
  its job loop and to its report; in a location of one offset, \<open>z\<close> seconds east of UTC,
  the loop sends no Job and the report is empty.  The argument \<^verbatim>\<open>-5\<close> is accepted as
  \<^verbatim>\<open>days = -5\<close> and the run panics when it makes the job channel.  Neither is reported
  as an invalid argument.
\<close>

theorem realmMain_accepts_zero_and_negative_days:
  "realmMain [prog, domain, ''0''] now =
     Run \<lparr>Days = 0, StartDate = startOfDay (AddDays now 1), EndDate = endOfDay now,
          SpecificDate = False,
          Jobs = enqueueJobs (startOfDay (AddDays now 1)) (endOfDay now)\<rparr> \<and>
   realmMain [prog, domain, ''0''] \<lparr>nsec = t, loc = FixedZone z\<rparr> =
     Run \<lparr>Days = 0, StartDate = startOfDay (AddDays \<lparr>nsec = t, loc = FixedZone z\<rparr> 1),
          EndDate = endOfDay \<lparr>nsec = t, loc = FixedZone z\<rparr>,
          SpecificDate = False, Jobs = []\<rparr> \<and>
   realmMain [prog, domain, ''-5''] now = Panic ''makechan: size out of range''"
proof -
  have d: "(t + 86400000000000) div 1000000000 = t div 1000000000 + 86400"
    by simp
  have "(t div 1000000000 + 86400 + z) div 86400 = (t div 1000000000 + z) div 86400 + 1"
    by simp
  then have "nsec (endOfDay \<lparr>nsec = t, loc = FixedZone z\<rparr>)
        \<le> nsec (startOfDay (AddDays \<lparr>nsec = t, loc = FixedZone z\<rparr> 1))"
    by (simp add: AddDays_FixedZone startOfDay_FixedZone endOfDay_FixedZone d algebra_simps)
  then have "enqueueJobs (startOfDay (AddDays \<lparr>nsec = t, loc = FixedZone z\<rparr> 1))
               (endOfDay \<lparr>nsec = t, loc = FixedZone z\<rparr>) = []"
    by (rule enqueueJobs_nil)
  then show ?thesis
    by (simp add: realmMain_def realmRange_def Atoi_0 Atoi_m5 enqueue_def Let_def)
qed

subsection \<open>The line parser\<close>

lemma scenario1_fields:
  "Fields ''2024-10-14T00:00:02 host-a radiusd[123]: Access-Accept for user alice@ku.ac.th stationid AA-BB-CC-DD-EE-FF from eduroam.ku.ac.th to eduroam.example.ac.th (10.0.0.1)''
   = [''2024-10-14T00:00:02'', ''host-a'', ''radiusd[123]:'', ''Access-Accept'', ''for'', ''user'',
      ''alice@ku.ac.th'', ''stationid'', ''AA-BB-CC-DD-EE-FF'', ''from'', ''eduroam.ku.ac.th'', ''to'',
      ''eduroam.example.ac.th'', ''(10.0.0.1)'']"
  by code_simp

lemma iso_no_zone_rfc3339: "parseRFC3339 ''2024-10-14T00:00:02'' = None"
  by code_simp

lemma lowerBit_2: "lowerBit CHR ''2'' = 50"
  by code_simp

lemma matchChar_2: "matchChar CHR ''2'' c = (c = CHR ''2'')"
  by (auto simp: matchChar_def lowerBit_2)

lemma lookup_2: "lookup shortMonthNames 1 (CHR ''2'' # v) = None"
  by (simp add: shortMonthNames_def matchChar_2 take_Cons' list_all2_Cons2)

lemma iso_no_zone_stamp: "parseStamp (''2024-10-14T00:00:02'' @ y) = None"
  by (simp add: parseStamp_def lookup_2)

lemma contains_T: "Contains ''2024-10-14T00:00:02'' ''T''"
  by code_simp

text \<open>
  C5 (the code at the line of scenario 1).  The timestamp \<^verbatim>\<open>2024-10-14T00:00:02\<close> has
  no zone.  \<^verbatim>\<open>time.Parse(time.RFC3339, ...)\<close> requires one, and the fallback layout begins
  with a month name, so \<^verbatim>\<open>parseTimestamp\<close> fails and \<^verbatim>\<open>parseLine\<close> returns the error
  \<^verbatim>\<open>invalid timestamp\<close>, whatever the clock: no entry is produced for the line.
\<close>

theorem parseLine_rejects_iso_without_zone:
  "parseLine ParseIP now
     ''2024-10-14T00:00:02 host-a radiusd[123]: Access-Accept for user alice@ku.ac.th stationid AA-BB-CC-DD-EE-FF from eduroam.ku.ac.th to eduroam.example.ac.th (10.0.0.1)''
   = Inl (Error ''invalid timestamp: unable to parse timestamp'')"
proof -
  have "parseTimestamp now ''2024-10-14T00:00:02'' = None"
    by (simp only: parseTimestamp_def iso_no_zone_rfc3339 iso_no_zone_stamp option.case)
  then show ?thesis
    by (simp only: parseLine_def scenario1_fields Let_def contains_T if_True nth_Cons_0 option.case)
       simp
qed

text \<open>
  C2 (the code at a line that ends with a field marker).  The line has five fields and a
  timestamp that parses; its last field is the marker \<^verbatim>\<open>user\<close>.  The loop reads
  \<^verbatim>\<open>parts[i+startIndex+3]\<close>, one past the end of \<^verbatim>\<open>parts\<close>, and the call panics.
\<close>

theorem parseLine_panics_on_trailing_marker:
  "parseLine ParseIP now ''2024-10-14T00:00:02Z host-a radiusd[123]: Access-Accept user''
     = Inl (Panicked ''index out of range'')"
  by code_simp

text \<open>
  A second panic of \<^verbatim>\<open>parseLine\<close>: a syslog-form line of five fields passes the length
  test, and \<^verbatim>\<open>parts[startIndex:startIndex+3]\<close> with \<^verbatim>\<open>startIndex = 4\<close> is out of range.
\<close>

lemma parseLine_panics_on_short_syslog_line:
  "parseLine ParseIP \<lparr>nsec = 1730000000123456789, loc = FixedZone 25200\<rparr> ''Oct 14 00:00:02 host-a radiusd[123]:''
     = Inl (Panicked ''slice bounds out of range'')"
  by code_simp

text \<open>
  With the zone \<^verbatim>\<open>Z\<close> added to its timestamp, the line of scenario 1 parses into the
  entry the specification expects.
\<close>

lemma parseLine_scenario1_with_zone:
  "parseLine ParseIP now
     ''2024-10-14T00:00:02Z host-a radiusd[123]: Access-Accept for user alice@ku.ac.th stationid AA-BB-CC-DD-EE-FF from eduroam.ku.ac.th to eduroam.example.ac.th (10.0.0.1)''
   = Inr ((newEntry ''2024-10-14T00:00:02Z host-a radiusd[123]: Access-Accept for user alice@ku.ac.th stationid AA-BB-CC-DD-EE-FF from eduroam.ku.ac.th to eduroam.example.ac.th (10.0.0.1)'')
        \<lparr>Timestamp := ''2024-10-14T00:00:02Z'', Hostname := ''host-a'', Process := ''radiusd'', PID := 123,
         MessageType := ''Access-Accept'', DestinationIP := ParseIP ''10.0.0.1'',
         Username := ''alice@ku.ac.th'', StationID := ''AA-BB-CC-DD-EE-FF'',
         Realm := ''eduroam.ku.ac.th'', ServiceProvider := ''eduroam.example.ac.th''\<rparr>)"
  by code_simp

text \<open>
  The fractional second of a syslog stamp counts in the test for the turn of the year: at
  2024-12-27 03:33:20.4 UTC the stamp \<^verbatim>\<open>Dec 27 03:33:20.5\<close> of the current year lies
  ahead of the clock and is dated 2023; the stamp without the fraction is dated 2024.
\<close>

lemma parseTimestamp_fraction_rollover:
  "parseTimestamp \<lparr>nsec = 1735270400400000000, loc = UTC\<rparr> ''Dec 27 03:33:20.5'' =
     Some \<lparr>cYear = 2023, cMonth = 12, cDay = 27, cHour = 3, cMinute = 33, cSecond = 20,
           cNano = 500000000, cOffset = 0\<rparr> \<and>
   parseTimestamp \<lparr>nsec = 1735270400400000000, loc = UTC\<rparr> ''Dec 27 03:33:20'' =
     Some \<lparr>cYear = 2024, cMonth = 12, cDay = 27, cHour = 3, cMinute = 33, cSecond = 20,
           cNano = 0, cOffset = 0\<rparr>"
  by code_simp

subsection \<open>Configuration\<close>

lemma configLine_badNumber: "badNumber raw \<Longrightarrow> configLine config raw = config"
  by (auto simp: badNumber_def unparsed_def configLine_def setKey_def split: option.splits)

lemma foldl_configLine_filter:
  "foldl configLine c lines = foldl configLine c (filter (\<lambda>l. \<not> badNumber l) lines)"
  by (induction lines arbitrary: c) (simp_all add: configLine_badNumber)

lemma setKey_BatchSize:
  "key \<noteq> ''batchSize'' \<or> Atoi v = None \<Longrightarrow> BatchSize (setKey key v config) = BatchSize config"
  by (auto simp: setKey_def split: option.splits)

lemma setKey_MaxRetries:
  "key \<noteq> ''maxRetries'' \<or> Atoi v = None \<Longrightarrow> MaxRetries (setKey key v config) = MaxRetries config"
  by (auto simp: setKey_def split: option.splits)

lemma foldl_BatchSize:
  "\<forall>l \<in> set lines. hasKey ''batchSize'' l \<longrightarrow> unparsed ''batchSize'' l \<Longrightarrow>
   BatchSize (foldl configLine c lines) = BatchSize c"
proof (induction lines arbitrary: c)
  case Nil
  then show ?case by simp
next
  case (Cons l lines)
  have "BatchSize (configLine c l) = BatchSize c"
    using Cons.prems
    by (auto simp: configLine_def hasKey_def unparsed_def setKey_BatchSize split: option.splits)
  with Cons show ?case by simp
qed

lemma foldl_MaxRetries:
  "\<forall>l \<in> set lines. hasKey ''maxRetries'' l \<longrightarrow> unparsed ''maxRetries'' l \<Longrightarrow>
   MaxRetries (foldl configLine c lines) = MaxRetries c"
proof (induction lines arbitrary: c)
  case Nil
  then show ?case by simp
next
  case (Cons l lines)
  have "MaxRetries (configLine c l) = MaxRetries c"
    using Cons.prems
    by (auto simp: configLine_def hasKey_def unparsed_def setKey_MaxRetries split: option.splits)
  with Cons show ?case by simp
qed

lemma fst_loadConfig: "fst (loadConfig (Some lines) e) = foldl configLine defaultConfig lines"
  by (simp add: loadConfig_def Let_def)

text \<open>
  C10.  A line that sets \<^verbatim>\<open>batchSize\<close> or \<^verbatim>\<open>maxRetries\<close> to a value that
  \<^verbatim>\<open>strconv.Atoi\<close> rejects leaves the configuration as it was; \<^verbatim>\<open>loadConfig\<close> returns
  the same configuration and the same error (or none) as for the file without such lines,
  so the line is never a configuration error; and when every line that sets
  \<^verbatim>\<open>batchSize\<close> (\<^verbatim>\<open>maxRetries\<close>) is such a line, the default 30000 (3) is what
  \<^verbatim>\<open>loadConfig\<close> returns.
\<close>

theorem loadConfig_ignores_unparsable_numbers:
  "(badNumber raw \<longrightarrow> configLine config raw = config) \<and>
   loadConfig (Some lines) scanErr = loadConfig (Some (filter (\<lambda>l. \<not> badNumber l) lines)) scanErr \<and>
   ((\<forall>l \<in> set lines. hasKey ''batchSize'' l \<longrightarrow> unparsed ''batchSize'' l) \<longrightarrow>
      BatchSize (fst (loadConfig (Some lines) scanErr)) = 30000) \<and>
   ((\<forall>l \<in> set lines. hasKey ''maxRetries'' l \<longrightarrow> unparsed ''maxRetries'' l) \<longrightarrow>
      MaxRetries (fst (loadConfig (Some lines) scanErr)) = 3)"
proof -
  have "loadConfig (Some lines) scanErr = loadConfig (Some (filter (\<lambda>l. \<not> badNumber l) lines)) scanErr"
    unfolding loadConfig_def option.case
    by (subst foldl_configLine_filter) (rule refl)
  then show ?thesis
    by (simp add: configLine_badNumber fst_loadConfig foldl_BatchSize foldl_MaxRetries defaultConfig_def)
qed

text \<open>
  The theorem at a file with the four required keys, \<^verbatim>\<open>batchSize=abc\<close> and
  \<^verbatim>\<open>maxRetries=3x\<close>: no error, and the defaults 30000 and 3.
\<close>

theorem loadConfig_ignores_unparsable_numbers_witness:
  "badNumber ''batchSize=abc'' \<and>
   configLine defaultConfig ''batchSize=abc'' = defaultConfig \<and>
   snd (loadConfig (Some [''logFilePath=/var/log/radius.log'', ''quickwitURL=http://qw:7280/ingest'',
          ''username=u'', ''password=p'', ''batchSize=abc'', ''maxRetries=3x'']) False) = None \<and>
   BatchSize (fst (loadConfig (Some [''logFilePath=/var/log/radius.log'', ''quickwitURL=http://qw:7280/ingest'',
          ''username=u'', ''password=p'', ''batchSize=abc'', ''maxRetries=3x'']) False)) = 30000 \<and>
   MaxRetries (fst (loadConfig (Some [''logFilePath=/var/log/radius.log'', ''quickwitURL=http://qw:7280/ingest'',
          ''username=u'', ''password=p'', ''batchSize=abc'', ''maxRetries=3x'']) False)) = 3"
proof -
  let ?L = "[''logFilePath=/var/log/radius.log'', ''quickwitURL=http://qw:7280/ingest'',
          ''username=u'', ''password=p'', ''batchSize=abc'', ''maxRetries=3x'']"
  have b: "badNumber ''batchSize=abc''"
    by code_simp
  have h1: "\<forall>l \<in> set ?L. hasKey ''batchSize'' l \<longrightarrow> unparsed ''batchSize'' l"
    by code_simp
  have h2: "\<forall>l \<in> set ?L. hasKey ''maxRetries'' l \<longrightarrow> unparsed ''maxRetries'' l"
    by code_simp
  have e: "snd (loadConfig (Some ?L) False) = None"
    by code_simp
  from loadConfig_ignores_unparsable_numbers [of "''batchSize=abc''" defaultConfig ?L False] b h1 h2 e
  show ?thesis by blast
qed

subsection \<open>Folding an aggregation response\<close>

text \<open>
  C7 (the code at a response with a user bucket that has no \<^verbatim>\<open>key\<close>).  The aggregation
  path is present and the bucket is a map, but \<^verbatim>\<open>bucket["key"].(string)\<close> is a one-value
  type assertion on nil: the call panics instead of skipping the bucket.
\<close>

theorem processAggregations_panics_on_bucket_without_key:
  "processAggregations
     [(''aggregations'', JObject [(''unique_users'', JObject [(''buckets'',
         JArray [JObject [(''doc_count'', JNumber 3)]])])])]
   = Inl (Panicked ''interface conversion: key is not string'')"
  by code_simp

text \<open>
  The parts of C7 the code does keep: a missing aggregation path is an error of the Job,
  a bucket that is not a map is skipped, and so is a histogram bucket with
  \<^verbatim>\<open>doc_count\<close> 0.
\<close>

lemma processAggregations_missing_path:
  "asMap (field result ''aggregations'') = None \<Longrightarrow>
     processAggregations result = Inl (Error ''no aggregations in response'')"
  "asMap (field result ''aggregations'') = Some aggs \<Longrightarrow> asMap (field aggs ''unique_users'') = None \<Longrightarrow>
     processAggregations result = Inl (Error ''no unique_users aggregation'')"
  "asMap (field result ''aggregations'') = Some aggs \<Longrightarrow> asMap (field aggs ''unique_users'') = Some uu \<Longrightarrow>
   asArray (field uu ''buckets'') = None \<Longrightarrow>
     processAggregations result = Inl (Error ''no buckets in unique_users aggregation'')"
  by (simp_all add: processAggregations_def)

lemma userBuckets_skips_non_map: "asMap b = None \<Longrightarrow> userBuckets (b # bs) = userBuckets bs"
  by simp

lemma dailyBuckets_skips_empty:
  "asMap b = None \<or> (\<exists>m. asMap b = Some m \<and> asNumber (field m ''doc_count'') = Some 0) \<Longrightarrow>
   dailyBuckets u p (b # bs) = dailyBuckets u p bs"
  by auto

text \<open>
  The seconds of a histogram key: for the keys of a response, whole milliseconds of a
  date, the quotient by 1000 rounded down; for a key of 18 digits the \<^verbatim>\<open>float64\<close>
  quotient is rounded before its fraction is dropped.
\<close>

lemma millisToSeconds_rounds:
  "millisToSeconds 1730000000000 = 1730000000 \<and>
   millisToSeconds 1730000000999 = 1730000000 \<and>
   millisToSeconds (- 1500) = - 1 \<and>
   millisToSeconds 140737488355328992 = 140737488355329"
  by code_simp

subsection \<open>Merging the entries into the Result\<close>

lemma keys_update [simp]: "keys (AList.update k v m) = insert k (keys m)"
  by (auto simp: keys_def AList.dom_update)

lemma keys_Nil [simp]: "keys [] = {}"
  by (simp add: keys_def)

lemma keys_Cons [simp]: "keys (kv # m) = insert (fst kv) (keys m)"
  by (simp add: keys_def)

lemma map_of_None_keys: "map_of m k = None \<longleftrightarrow> k \<notin> keys m"
  by (simp add: keys_def map_of_eq_None_iff)

lemma map_of_update [simp]: "map_of (AList.update k v m) = (map_of m)(k \<mapsto> v)"
  by (rule AList.update_conv')

lemma addProvider_userPairs:
  "userPairs (addProvider u r p) = insert (u, p) (userPairs r)"
  by (auto simp: userPairs_def addProvider_def getOr_def split: option.splits if_splits)

lemma addProvider_providerPairs:
  "providerPairs (addProvider u r p) = insert (u, p) (providerPairs r)"
  by (auto simp: providerPairs_def addProvider_def getOr_def split: option.splits if_splits)

lemma addProvider_keys:
  "keys (Users_res (addProvider u r p)) = insert u (keys (Users_res r))"
  "keys (Providers_res (addProvider u r p)) = insert p (keys (Providers_res r))"
  by (simp_all add: addProvider_def)

lemma foldl_addProvider:
  "userPairs (foldl (addProvider u) r ps) = userPairs r \<union> {u} \<times> set ps \<and>
   providerPairs (foldl (addProvider u) r ps) = providerPairs r \<union> {u} \<times> set ps \<and>
   keys (Users_res (foldl (addProvider u) r ps)) = keys (Users_res r) \<union> (if ps = [] then {} else {u}) \<and>
   keys (Providers_res (foldl (addProvider u) r ps)) = keys (Providers_res r) \<union> set ps"
  by (induction ps arbitrary: r)
     (auto simp: addProvider_userPairs addProvider_providerPairs addProvider_keys)

lemma mergeUser_facts:
  "userPairs (mergeUser r (u, m)) = userPairs r \<union> {u} \<times> keys m \<and>
   providerPairs (mergeUser r (u, m)) = providerPairs r \<union> {u} \<times> keys m \<and>
   keys (Users_res (mergeUser r (u, m))) = insert u (keys (Users_res r)) \<and>
   keys (Providers_res (mergeUser r (u, m))) = keys (Providers_res r) \<union> keys m"
proof -
  define r' where "r' = (if map_of (Users_res r) u = None
        then r\<lparr>Users_res := AList.update u \<lparr>Providers = []\<rparr> (Users_res r)\<rparr> else r)"
  have m: "mergeUser r (u, m) = foldl (addProvider u) r' (map fst m)"
    by (simp add: mergeUser_def r'_def)
  have 1: "userPairs r' = userPairs r"
    by (auto simp: r'_def userPairs_def split: if_splits)
  have 2: "providerPairs r' = providerPairs r"
    by (simp add: r'_def providerPairs_def)
  have 3: "keys (Users_res r') = insert u (keys (Users_res r))"
    by (auto simp: r'_def map_of_None_keys)
  have 4: "keys (Providers_res r') = keys (Providers_res r)"
    by (simp add: r'_def)
  have f: "userPairs (foldl (addProvider u) r' (map fst m)) = userPairs r' \<union> {u} \<times> keys m \<and>
     providerPairs (foldl (addProvider u) r' (map fst m)) = providerPairs r' \<union> {u} \<times> keys m \<and>
     keys (Users_res (foldl (addProvider u) r' (map fst m)))
       = keys (Users_res r') \<union> (if m = [] then {} else {u}) \<and>
     keys (Providers_res (foldl (addProvider u) r' (map fst m))) = keys (Providers_res r') \<union> keys m"
    using foldl_addProvider[of u r' "map fst m"] by (simp add: keys_def)
  show ?thesis
    unfolding m using f by (auto simp: 1 2 3 4)
qed

lemma foldl_mergeUser:
  "userPairs (foldl mergeUser r um) = userPairs r \<union> (\<Union>(u, m) \<in> set um. {u} \<times> keys m) \<and>
   providerPairs (foldl mergeUser r um) = providerPairs r \<union> (\<Union>(u, m) \<in> set um. {u} \<times> keys m) \<and>
   keys (Users_res (foldl mergeUser r um)) = keys (Users_res r) \<union> keys um \<and>
   keys (Providers_res (foldl mergeUser r um)) = keys (Providers_res r) \<union> (\<Union>(u, m) \<in> set um. keys m)"
proof (induction um arbitrary: r)
  case Nil
  show ?case by simp
next
  case (Cons a um)
  obtain u m where a: "a = (u, m)" by (cases a)
  show ?case
    using Cons[of "mergeUser r (u, m)"] mergeUser_facts[of r u m]
    by (auto simp: a)
qed

text \<open>The user map of the first phase.\<close>

lemma addToUserMap_distinct:
  "distinct (map fst um) \<Longrightarrow> distinct (map fst (addToUserMap um e))"
  by (simp add: addToUserMap_def AList.distinct_update)

lemma addToUserMap_pairs:
  "mapPairs (addToUserMap um e) = insert (Username_a e, ServiceProvider_a e) (mapPairs um)"
  by (auto simp: mapPairs_def addToUserMap_def getOr_def split: option.splits if_splits)

lemma userMap_facts:
  "distinct (map fst um) \<Longrightarrow>
   distinct (map fst (foldl addToUserMap um es)) \<and>
   mapPairs (foldl addToUserMap um es) = mapPairs um \<union> observed es"
  by (induction es arbitrary: um)
     (auto simp: addToUserMap_distinct addToUserMap_pairs observed_def)

lemma mapPairs_distinct:
  "distinct (map fst um) \<Longrightarrow> mapPairs um = (\<Union>(u, m) \<in> set um. {u} \<times> keys m)"
  by (auto simp: mapPairs_def)

lemma mapPairs_Nil: "mapPairs [] = {}"
  by (simp add: mapPairs_def)

lemma processResults_pairs:
  "userPairs (processResults es emptyAcceptResult) = observed es \<and>
   providerPairs (processResults es emptyAcceptResult) = observed es"
proof -
  let ?um = "foldl addToUserMap [] es"
  have d: "distinct (map fst ?um)" and p: "mapPairs ?um = observed es"
    using userMap_facts[of "[]" es] by (simp_all add: mapPairs_Nil)
  have e: "userPairs emptyAcceptResult = {}" "providerPairs emptyAcceptResult = {}"
    by (simp_all add: userPairs_def providerPairs_def emptyAcceptResult_def)
  show ?thesis
    using foldl_mergeUser[of emptyAcceptResult ?um] mapPairs_distinct[OF d] p
    by (simp add: processResults_def e)
qed


lemma addStationEntry_known:
  "realmStationsKnown r \<Longrightarrow> realmStationsKnown (addStationEntry r e)"
  unfolding realmStationsKnown_def addStationEntry_def Let_def getOr_def
  by (auto split: option.splits if_splits)

lemma foldl_addStationEntry_known:
  "realmStationsKnown r \<Longrightarrow> realmStationsKnown (foldl addStationEntry r es)"
  by (induction es arbitrary: r) (simp_all add: addStationEntry_known)

lemma keys_sortStation: "keys (map sortStation sts) = keys sts"
  by (induction sts) (simp_all add: sortStation_def)

lemma processResultsSP_known: "realmStationsKnown (processResultsSP es emptySPResult)"
proof -
  have "realmStationsKnown emptySPResult"
    by (simp add: realmStationsKnown_def emptySPResult_def)
  then have "realmStationsKnown (foldl addStationEntry emptySPResult es)"
    by (rule foldl_addStationEntry_known)
  then show ?thesis
    by (simp add: realmStationsKnown_def processResultsSP_def Let_def keys_sortStation)
qed

text \<open>
  C4.  After \<^verbatim>\<open>processResults\<close> has merged the entries of a run into an empty Result:
  on the realm side every user in a provider's user set is a key of the Result's users,
  each user's provider set is exactly the set of providers seen with that user in an entry,
  and each provider's user set exactly the set of users seen with that provider; on the SP
  side every station in a realm's station set is a key of the Result's stations.
\<close>

theorem cross_maps_consistent:
  "(\<forall>p ps u. map_of (Providers_res (processResults es emptyAcceptResult)) p = Some ps \<longrightarrow>
       u \<in> keys (Users ps) \<longrightarrow> u \<in> keys (Users_res (processResults es emptyAcceptResult))) \<and>
   (\<forall>u us. map_of (Users_res (processResults es emptyAcceptResult)) u = Some us \<longrightarrow>
       keys (Providers us) = {p. (u, p) \<in> observed es}) \<and>
   (\<forall>p ps. map_of (Providers_res (processResults es emptyAcceptResult)) p = Some ps \<longrightarrow>
       keys (Users ps) = {u. (u, p) \<in> observed es}) \<and>
   (\<forall>rl rs s. map_of (Realms (processResultsSP ses emptySPResult)) rl = Some rs \<longrightarrow>
       s \<in> keys (Stations_rs rs) \<longrightarrow> s \<in> keys (Stations (processResultsSP ses emptySPResult)))"
proof -
  let ?R = "processResults es emptyAcceptResult"
  have up: "userPairs ?R = observed es" and pp: "providerPairs ?R = observed es"
    using processResults_pairs[of es] by simp_all
  have a: "u \<in> keys (Users_res ?R)" if "map_of (Providers_res ?R) p = Some ps" "u \<in> keys (Users ps)"
    for p ps u
  proof -
    from that have "(u, p) \<in> providerPairs ?R" by (auto simp: providerPairs_def)
    then have "(u, p) \<in> userPairs ?R" by (simp add: up pp)
    then show ?thesis by (auto simp: userPairs_def keys_def dest: map_of_SomeD intro: rev_image_eqI)
  qed
  have b: "keys (Providers us) = {p. (u, p) \<in> observed es}" if "map_of (Users_res ?R) u = Some us"
    for u us
    using that up[symmetric] by (auto simp: userPairs_def)
  have c: "keys (Users ps) = {u. (u, p) \<in> observed es}" if "map_of (Providers_res ?R) p = Some ps"
    for p ps
    using that pp[symmetric] by (auto simp: providerPairs_def)
  have d: "s \<in> keys (Stations (processResultsSP ses emptySPResult))"
    if "map_of (Realms (processResultsSP ses emptySPResult)) rl = Some rs" "s \<in> keys (Stations_rs rs)"
    for rl rs s
    using that processResultsSP_known[of ses] by (auto simp: realmStationsKnown_def)
  from a b c d show ?thesis by blast
qed

text \<open>
  The theorem at three realm-side entries (alice at sp1, bob at sp1 and at sp2) and two
  SP-side entries (alice of realm r1 and bob of realm r2, both on station S1).
\<close>

theorem cross_maps_consistent_witness:
  "map_of (Providers_res (processResults
      [\<lparr>Username_a = ''alice'', ServiceProvider_a = ''sp1'', Timestamp_a = 1728864000\<rparr>,
       \<lparr>Username_a = ''bob'', ServiceProvider_a = ''sp1'', Timestamp_a = 1728864000\<rparr>,
       \<lparr>Username_a = ''bob'', ServiceProvider_a = ''sp2'', Timestamp_a = 1728864000\<rparr>]
      emptyAcceptResult)) ''sp1'' = Some \<lparr>Users = [(''alice'', True), (''bob'', True)]\<rparr> \<and>
   ''bob'' \<in> keys (Users_res (processResults
      [\<lparr>Username_a = ''alice'', ServiceProvider_a = ''sp1'', Timestamp_a = 1728864000\<rparr>,
       \<lparr>Username_a = ''bob'', ServiceProvider_a = ''sp1'', Timestamp_a = 1728864000\<rparr>,
       \<lparr>Username_a = ''bob'', ServiceProvider_a = ''sp2'', Timestamp_a = 1728864000\<rparr>]
      emptyAcceptResult)) \<and>
   keys [(''alice'', True), (''bob'', True)] = {u. (u, ''sp1'') \<in> observed
      [\<lparr>Username_a = ''alice'', ServiceProvider_a = ''sp1'', Timestamp_a = 1728864000\<rparr>,
       \<lparr>Username_a = ''bob'', ServiceProvider_a = ''sp1'', Timestamp_a = 1728864000\<rparr>,
       \<lparr>Username_a = ''bob'', ServiceProvider_a = ''sp2'', Timestamp_a = 1728864000\<rparr>]} \<and>
   map_of (Realms (processResultsSP
      [\<lparr>Username_e = ''alice'', Realm_e = ''r1'', ServiceProvider_e = [], StationID_e = ''S1'',
        Timestamp_e = 1728864000\<rparr>,
       \<lparr>Username_e = ''bob'', Realm_e = ''r2'', ServiceProvider_e = [], StationID_e = ''S1'',
        Timestamp_e = 1728864060\<rparr>] emptySPResult)) ''r2''
     = Some \<lparr>Realm_rs = ''r2'', Users_rs = [(''bob'', True)], Stations_rs = [(''S1'', True)],
             TotalAuths_rs = 1\<rparr> \<and>
   ''S1'' \<in> keys (Stations (processResultsSP
      [\<lparr>Username_e = ''alice'', Realm_e = ''r1'', ServiceProvider_e = [], StationID_e = ''S1'',
        Timestamp_e = 1728864000\<rparr>,
       \<lparr>Username_e = ''bob'', Realm_e = ''r2'', ServiceProvider_e = [], StationID_e = ''S1'',
        Timestamp_e = 1728864060\<rparr>] emptySPResult))"
proof -
  let ?E = "[\<lparr>Username_a = ''alice'', ServiceProvider_a = ''sp1'', Timestamp_a = 1728864000\<rparr>,
       \<lparr>Username_a = ''bob'', ServiceProvider_a = ''sp1'', Timestamp_a = 1728864000\<rparr>,
       \<lparr>Username_a = ''bob'', ServiceProvider_a = ''sp2'', Timestamp_a = 1728864000\<rparr>]"
  let ?S = "[\<lparr>Username_e = ''alice'', Realm_e = ''r1'', ServiceProvider_e = [], StationID_e = ''S1'',
        Timestamp_e = 1728864000\<rparr>,
       \<lparr>Username_e = ''bob'', Realm_e = ''r2'', ServiceProvider_e = [], StationID_e = ''S1'',
        Timestamp_e = 1728864060\<rparr>]"
  have p: "map_of (Providers_res (processResults ?E emptyAcceptResult)) ''sp1''
             = Some \<lparr>Users = [(''alice'', True), (''bob'', True)]\<rparr>"
    by code_simp
  have r: "map_of (Realms (processResultsSP ?S emptySPResult)) ''r2''
     = Some \<lparr>Realm_rs = ''r2'', Users_rs = [(''bob'', True)], Stations_rs = [(''S1'', True)],
             TotalAuths_rs = 1\<rparr>"
    by code_simp
  note t = cross_maps_consistent [of ?E ?S]
  have "''bob'' \<in> keys (Users \<lparr>Users = [(''alice'', True), (''bob'', True)]\<rparr>)"
    by (simp add: keys_def)
  then have 1: "''bob'' \<in> keys (Users_res (processResults ?E emptyAcceptResult))"
    by (rule t [THEN conjunct1, rule_format, OF p])
  have 2: "keys [(''alice'', True), (''bob'', True)] = {u. (u, ''sp1'') \<in> observed ?E}"
    using t [THEN conjunct2, THEN conjunct2, THEN conjunct1, rule_format, OF p] by simp
  have "''S1'' \<in> keys (Stations_rs \<lparr>Realm_rs = ''r2'', Users_rs = [(''bob'', True)],
          Stations_rs = [(''S1'', True)], TotalAuths_rs = 1\<rparr>)"
    by (simp add: keys_def)
  then have 3: "''S1'' \<in> keys (Stations (processResultsSP ?S emptySPResult))"
    by (rule t [THEN conjunct2, THEN conjunct2, THEN conjunct2, rule_format, OF r])
  from p r 1 2 3 show ?thesis by blast
qed

subsection \<open>The output arrays\<close>

lemma set_bubble: "set (bubble lf x ys) = insert x (set ys)"
  by (induction ys) auto

lemma mset_bubble: "mset (bubble lf x ys) = add_mset x (mset ys)"
  by (induction ys) auto

lemma mset_foldl_bubble: "mset (foldl (\<lambda>acc x. bubble lf x acc) acc xs) = mset acc + mset xs"
  by (induction xs arbitrary: acc) (simp_all add: mset_bubble)

lemma mset_sortSlice: "mset (sortSlice lf xs) = mset xs"
  by (simp add: sortSlice_def mset_foldl_bubble)

text \<open>A reversed prefix is in order when each element may follow all elements after it in the list.\<close>

lemma sorted_bubble:
  assumes asym: "\<And>a b. lf a b \<Longrightarrow> \<not> lf b a"
    and trans: "\<And>a b c. \<not> lf b a \<Longrightarrow> \<not> lf c b \<Longrightarrow> \<not> lf c a"
  shows "sorted_wrt (\<lambda>a b. \<not> lf a b) ys \<Longrightarrow> sorted_wrt (\<lambda>a b. \<not> lf a b) (bubble lf x ys)"
proof (induction ys)
  case Nil
  show ?case by simp
next
  case (Cons y ys)
  show ?case
  proof (cases "lf x y")
    case True
    then have "\<not> lf y x" by (rule asym)
    with True Cons show ?thesis by (auto simp: set_bubble)
  next
    case False
    have "\<not> lf x z" if "z \<in> set ys" for z
    proof -
      from Cons.prems that have "\<not> lf y z" by simp
      from this False show ?thesis by (rule trans)
    qed
    with False Cons.prems show ?thesis by auto
  qed
qed

lemma sorted_foldl_bubble:
  assumes asym: "\<And>a b. lf a b \<Longrightarrow> \<not> lf b a"
    and trans: "\<And>a b c. \<not> lf b a \<Longrightarrow> \<not> lf c b \<Longrightarrow> \<not> lf c a"
  shows "sorted_wrt (\<lambda>a b. \<not> lf a b) acc \<Longrightarrow>
         sorted_wrt (\<lambda>a b. \<not> lf a b) (foldl (\<lambda>acc x. bubble lf x acc) acc xs)"
proof (induction xs arbitrary: acc)
  case Nil
  then show ?case by simp
next
  case (Cons x xs)
  have "sorted_wrt (\<lambda>a b. \<not> lf a b) (bubble lf x acc)"
  proof (rule sorted_bubble)
    show "\<And>a b. lf a b \<Longrightarrow> \<not> lf b a" by (rule asym)
    show "\<And>a b c. \<not> lf b a \<Longrightarrow> \<not> lf c b \<Longrightarrow> \<not> lf c a" by (rule trans)
    show "sorted_wrt (\<lambda>a b. \<not> lf a b) acc" by (rule Cons.prems)
  qed
  then show ?case using Cons.IH by simp
qed

lemma sorted_sortSlice:
  assumes asym: "\<And>a b. lf a b \<Longrightarrow> \<not> lf b a"
    and trans: "\<And>a b c. \<not> lf b a \<Longrightarrow> \<not> lf c b \<Longrightarrow> \<not> lf c a"
  shows "sorted_wrt (\<lambda>a b. \<not> lf b a) (sortSlice lf xs)"
proof -
  have "sorted_wrt (\<lambda>a b. \<not> lf a b) (foldl (\<lambda>acc x. bubble lf x acc) [] xs)"
  proof (rule sorted_foldl_bubble)
    show "\<And>a b. lf a b \<Longrightarrow> \<not> lf b a" by (rule asym)
    show "\<And>a b c. \<not> lf b a \<Longrightarrow> \<not> lf c b \<Longrightarrow> \<not> lf c a" by (rule trans)
    show "sorted_wrt (\<lambda>a b. \<not> lf a b) []" by simp
  qed
  then show ?thesis
    by (simp add: sortSlice_def sorted_wrt_rev)
qed

lemma sorted_sortSlice_desc:
  fixes f :: "'a \<Rightarrow> 'b::linorder"
  shows "sorted_wrt (\<lambda>a b. f a \<ge> f b) (sortSlice (\<lambda>a b. f a > f b) xs)"
  using sorted_sortSlice[of "\<lambda>a b. f a > f b" xs] by (simp add: not_less)

lemma sorted_sortSlice_asc:
  fixes f :: "'a \<Rightarrow> 'b::linorder"
  shows "sorted_wrt (\<lambda>a b. f a \<le> f b) (sortSlice (\<lambda>a b. f a < f b) xs)"
  using sorted_sortSlice[of "\<lambda>a b. f a < f b" xs] by (simp add: not_less)


lemma mset_map_sortSlice: "mset (map f (sortSlice lf xs)) = mset (map f xs)"
  using mset_sortSlice[of lf xs] by (metis mset_map)

text \<open>
  C6, as the code has it.  Whatever the Result and the order in which its maps are visited:
  the providers of the realm query are sorted by descending user count; its users by
  ascending username; the stations and the realms of the SP query by descending
  \<^verbatim>\<open>total_auths\<close>; the user details of every station by ascending username.  Each
  array holds exactly one element for every key of the map it is made from, with the data
  of that key: a provider with its number of users and its users, a user with its
  providers, a station with its counts and one detail for each of its users, a realm with
  its counts.
\<close>

theorem output_arrays_sorted:
  "sorted_wrt (\<lambda>a b. UserCount a \<ge> UserCount b) (ProviderStats_o (createOutputData result domain days)) \<and>
   mset (map (\<lambda>p. (Provider p, UserCount p, mset (Users_o p)))
          (ProviderStats_o (createOutputData result domain days))) =
     mset (map (\<lambda>kv. (fst kv, length (Users (snd kv)), mset (map fst (Users (snd kv)))))
            (Providers_res result)) \<and>
   sorted_wrt (\<lambda>a b. Username_o a \<le> Username_o b) (UserStats_o (createOutputData result domain days)) \<and>
   mset (map (\<lambda>u. (Username_o u, mset (Providers_o u)))
          (UserStats_o (createOutputData result domain days))) =
     mset (map (\<lambda>kv. (fst kv, mset (map fst (Providers (snd kv))))) (Users_res result)) \<and>
   sorted_wrt (\<lambda>a b. TotalAuths_o a \<ge> TotalAuths_o b) (StationStats_o (createOutputDataSP spResult sp days)) \<and>
   mset (map (\<lambda>s. (StationID_o s, TotalAuths_o s, TotalUsers_o s, mset (UserDetails s)))
          (StationStats_o (createOutputDataSP spResult sp days))) =
     mset (map (\<lambda>kv. (fst kv, TotalAuths_st (snd kv), length (Users_st (snd kv)),
                       mset (map (\<lambda>ua. \<lparr>Username_d = fst ua, Realm_d = Realm_ua (snd ua),
                                           AuthTimestamps_d = AuthTimestamps (snd ua)\<rparr>)
                              (Users_st (snd kv)))))
            (Stations spResult)) \<and>
   list_all (\<lambda>s. sorted_wrt (\<lambda>a b. Username_d a \<le> Username_d b) (UserDetails s))
            (StationStats_o (createOutputDataSP spResult sp days)) \<and>
   sorted_wrt (\<lambda>a b. TotalAuths_ro a \<ge> TotalAuths_ro b) (RealmStats_o (createOutputDataSP spResult sp days)) \<and>
   mset (RealmStats_o (createOutputDataSP spResult sp days)) =
     mset (map (\<lambda>kv. \<lparr>Realm_o = fst kv, TotalUsers_ro = length (Users_rs (snd kv)),
                        TotalStations = length (Stations_rs (snd kv)),
                        TotalAuths_ro = TotalAuths_rs (snd kv)\<rparr>)
            (Realms spResult))"
proof -
  have ud: "userDetail = (\<lambda>ua. \<lparr>Username_d = fst ua, Realm_d = Realm_ua (snd ua),
                                AuthTimestamps_d = AuthTimestamps (snd ua)\<rparr>)"
    by (rule ext) (simp add: userDetail_def)
  have rs: "realmStat = (\<lambda>kv. \<lparr>Realm_o = fst kv, TotalUsers_ro = length (Users_rs (snd kv)),
                        TotalStations = length (Stations_rs (snd kv)),
                        TotalAuths_ro = TotalAuths_rs (snd kv)\<rparr>)"
    by (rule ext) (simp add: realmStat_def)
  have "list_all (\<lambda>s. sorted_wrt (\<lambda>a b. Username_d a \<le> Username_d b) (UserDetails s))
            (map stationStat (Stations spResult))"
    by (simp add: list_all_iff stationStat_def sorted_sortSlice_asc)
  then have "list_all (\<lambda>s. sorted_wrt (\<lambda>a b. Username_d a \<le> Username_d b) (UserDetails s))
            (sortSlice (\<lambda>a b. TotalAuths_o a > TotalAuths_o b) (map stationStat (Stations spResult)))"
    unfolding list_all_iff
    using mset_sortSlice[of "\<lambda>a b. TotalAuths_o a > TotalAuths_o b" "map stationStat (Stations spResult)"]
    by (metis mset_eq_setD)
  moreover have "mset (map (\<lambda>s. (StationID_o s, TotalAuths_o s, TotalUsers_o s, mset (UserDetails s)))
          (StationStats_o (createOutputDataSP spResult sp days))) =
     mset (map (\<lambda>kv. (fst kv, TotalAuths_st (snd kv), length (Users_st (snd kv)),
                       mset (map (\<lambda>ua. \<lparr>Username_d = fst ua, Realm_d = Realm_ua (snd ua),
                                           AuthTimestamps_d = AuthTimestamps (snd ua)\<rparr>)
                              (Users_st (snd kv)))))
            (Stations spResult))"
    by (simp add: createOutputDataSP_def mset_map_sortSlice stationStat_def ud
          mset_sortSlice comp_def del: mset_map)
  moreover have "mset (map (\<lambda>p. (Provider p, UserCount p, mset (Users_o p)))
          (ProviderStats_o (createOutputData result domain days))) =
     mset (map (\<lambda>kv. (fst kv, length (Users (snd kv)), mset (map fst (Users (snd kv)))))
            (Providers_res result))"
    by (simp add: createOutputData_def mset_map_sortSlice providerStat_def comp_def del: mset_map)
  moreover have "mset (map (\<lambda>u. (Username_o u, mset (Providers_o u)))
          (UserStats_o (createOutputData result domain days))) =
     mset (map (\<lambda>kv. (fst kv, mset (map fst (Providers (snd kv))))) (Users_res result))"
    by (simp add: createOutputData_def mset_map_sortSlice userStat_def comp_def del: mset_map)
  moreover have "mset (RealmStats_o (createOutputDataSP spResult sp days)) =
     mset (map (\<lambda>kv. \<lparr>Realm_o = fst kv, TotalUsers_ro = length (Users_rs (snd kv)),
                        TotalStations = length (Stations_rs (snd kv)),
                        TotalAuths_ro = TotalAuths_rs (snd kv)\<rparr>)
            (Realms spResult))"
    by (simp add: createOutputDataSP_def mset_sortSlice rs del: mset_map)
  ultimately show ?thesis
    by (simp add: createOutputData_def createOutputDataSP_def sorted_sortSlice_desc
          sorted_sortSlice_asc)
qed

text \<open>
  C6 as stated fails, in each of its three parts.  Stations: two users authenticate once
  each on station S2 and one user three times on station S1, and the SP query lists S1
  (one user) before S2 (two users).  Users of the realm query: alice is seen on one day and
  bob on two, and alice is listed before bob.  Ties: two providers with one user each come
  out in the order in which the map of providers is visited, whichever it is, and so do
  two stations with one authentication each; no comparator looks at a second key.
\<close>

theorem output_order_differs:
  "map (\<lambda>s. (StationID_o s, TotalUsers_o s, TotalAuths_o s))
     (StationStats_o (createOutputDataSP
        (processResultsSP
           [\<lparr>Username_e = ''bob'', Realm_e = ''r1'', ServiceProvider_e = [], StationID_e = ''S2'',
             Timestamp_e = 10\<rparr>,
            \<lparr>Username_e = ''carol'', Realm_e = ''r1'', ServiceProvider_e = [], StationID_e = ''S2'',
             Timestamp_e = 20\<rparr>,
            \<lparr>Username_e = ''alice'', Realm_e = ''r1'', ServiceProvider_e = [], StationID_e = ''S1'',
             Timestamp_e = 30\<rparr>,
            \<lparr>Username_e = ''alice'', Realm_e = ''r1'', ServiceProvider_e = [], StationID_e = ''S1'',
             Timestamp_e = 60\<rparr>,
            \<lparr>Username_e = ''alice'', Realm_e = ''r1'', ServiceProvider_e = [], StationID_e = ''S1'',
             Timestamp_e = 90\<rparr>]
           emptySPResult)
        ''eduroam.ku.ac.th'' 1))
     = [(''S1'', 1, 3), (''S2'', 2, 2)] \<and>
   map (\<lambda>u. (Username_o u,
              daysActive
                [\<lparr>Username_a = ''alice'', ServiceProvider_a = ''z.ac.th'', Timestamp_a = 1729900800\<rparr>,
                 \<lparr>Username_a = ''bob'', ServiceProvider_a = ''a.ac.th'', Timestamp_a = 1729900800\<rparr>,
                 \<lparr>Username_a = ''bob'', ServiceProvider_a = ''a.ac.th'', Timestamp_a = 1729987200\<rparr>]
                (Username_o u)))
     (UserStats_o (createOutputData
        (processResults
           [\<lparr>Username_a = ''alice'', ServiceProvider_a = ''z.ac.th'', Timestamp_a = 1729900800\<rparr>,
            \<lparr>Username_a = ''bob'', ServiceProvider_a = ''a.ac.th'', Timestamp_a = 1729900800\<rparr>,
            \<lparr>Username_a = ''bob'', ServiceProvider_a = ''a.ac.th'', Timestamp_a = 1729987200\<rparr>]
           emptyAcceptResult)
        ''ku.ac.th'' 2))
     = [(''alice'', 1), (''bob'', 2)] \<and>
   map (\<lambda>p. (Provider p, UserCount p))
     (ProviderStats_o (createOutputData
        \<lparr>Users_res = [(''alice'', \<lparr>Providers = [(''z.ac.th'', True)]\<rparr>),
                      (''bob'', \<lparr>Providers = [(''a.ac.th'', True)]\<rparr>)],
         Providers_res = [(''z.ac.th'', \<lparr>Users = [(''alice'', True)]\<rparr>),
                          (''a.ac.th'', \<lparr>Users = [(''bob'', True)]\<rparr>)]\<rparr>
        ''ku.ac.th'' 2))
     = [(''z.ac.th'', 1), (''a.ac.th'', 1)] \<and>
   map (\<lambda>p. (Provider p, UserCount p))
     (ProviderStats_o (createOutputData
        \<lparr>Users_res = [(''alice'', \<lparr>Providers = [(''z.ac.th'', True)]\<rparr>),
                      (''bob'', \<lparr>Providers = [(''a.ac.th'', True)]\<rparr>)],
         Providers_res = [(''a.ac.th'', \<lparr>Users = [(''bob'', True)]\<rparr>),
                          (''z.ac.th'', \<lparr>Users = [(''alice'', True)]\<rparr>)]\<rparr>
        ''ku.ac.th'' 2))
     = [(''a.ac.th'', 1), (''z.ac.th'', 1)] \<and>
   map (\<lambda>s. (StationID_o s, TotalAuths_o s))
     (StationStats_o (createOutputDataSP
        (processResultsSP
           [\<lparr>Username_e = ''bob'', Realm_e = ''r1'', ServiceProvider_e = [], StationID_e = ''S2'',
             Timestamp_e = 10\<rparr>,
            \<lparr>Username_e = ''alice'', Realm_e = ''r1'', ServiceProvider_e = [], StationID_e = ''S1'',
             Timestamp_e = 30\<rparr>]
           emptySPResult)
        ''eduroam.ku.ac.th'' 1))
     = [(''S2'', 1), (''S1'', 1)]"
  by code_simp

subsection \<open>The retry loop, step by step\<close>

text \<open>
  The part of C1 the code does keep: an attempt refused with 413 or
  \<^verbatim>\<open>Payload Too Large\<close> halves the working batch size and goes on with the first half,
  or ends with an error when the half would be empty; an accepted attempt ends the call
  with what that attempt posted.
\<close>

lemma retryLoop_payload_too_large:
  assumes "i < maxRetries" and "sendToQuickwit server (take batchSize entries) = Some err"
    and "Contains err ''413'' \<or> Contains err ''Payload Too Large''"
  shows "retryLoop server entries maxRetries batchSize i =
           (if batchSize div 2 < 1 then Inl (''batch size reduced to zero: '' @ err)
            else retryLoop server entries maxRetries (batchSize div 2) (i + 1))"
  using assms by (subst retryLoop.simps) simp

lemma retryLoop_success:
  assumes "i < maxRetries" and "sendToQuickwit server (take batchSize entries) = None"
  shows "retryLoop server entries maxRetries batchSize i = Inr (take batchSize entries)"
  using assms by (subst retryLoop.simps) simp

end
